theory Spec2Isabelle
  imports Complex_Main "HOL-Library.AList"
begin

section \<open>Values, dictionaries and exceptions\<close>

text \<open>
  The values a tag dictionary of \<^verbatim>\<open>mopidy/audio/scan.py\<close> holds: Python's None, a
  unicode string, an integer, a float (what \<^verbatim>\<open>os.path.getmtime\<close> returns), a
  \<^verbatim>\<open>gst.Date\<close> (year, month, day; a GDate stores them unsigned) and the list of
  strings a multi-valued tag collapses to. Floats are modelled by exact reals: rounding
  is not part of the model.
\<close>

datatype pyval =
    VNone
  | VStr string
  | VInt int
  | VFloat real
  | VDate nat nat nat
  | VStrs "string list"

text \<open>The dictionary \<^verbatim>\<open>data\<close>: keys are tag names.\<close>

type_synonym data = "string \<rightharpoonup> pyval"

text \<open>
  The exceptions that leave the functions of the module. \<^verbatim>\<open>ScannerError\<close> carries
  its message; the others are Python's own, and \<^verbatim>\<open>GError\<close> stands for an exception
  that a call of the engine raises.
\<close>

datatype exn =
    ScannerError string
  | OSError
  | KeyError string
  | TypeError
  | ValueError
  | AttributeError
  | OverflowError
  | GError string

text \<open>Python's truth value of an object (\<^verbatim>\<open>if x:\<close>); a \<^verbatim>\<open>gst.Date\<close> is always true.\<close>

fun truthy :: "pyval \<Rightarrow> bool" where
  "truthy VNone = False"
| "truthy (VStr s) = (s \<noteq> [])"
| "truthy (VInt i) = (i \<noteq> 0)"
| "truthy (VFloat r) = (r \<noteq> 0)"
| "truthy (VDate y m d) = True"
| "truthy (VStrs xs) = (xs \<noteq> [])"

section \<open>Decimal rendering (\<^verbatim>\<open>%d\<close>)\<close>

definition digit_char :: "nat \<Rightarrow> char" where
  "digit_char n = ''0123456789'' ! (n mod 10)"

function decimal :: "nat \<Rightarrow> string" where
  "decimal n = (if 10 \<le> n then decimal (n div 10) @ [digit_char n] else [digit_char n])"
  by pat_completeness auto
termination
  by (relation "measure id") auto

declare decimal.simps [simp del]

text \<open>\<^verbatim>\<open>'%d' % i\<close> for an integer.\<close>

definition format_d :: "int \<Rightarrow> string" where
  "format_d i = (if 0 \<le> i then decimal (nat i) else CHR ''-'' # decimal (nat (- i)))"

section \<open>The decode engine seen from the scanner\<close>

text \<open>
  GStreamer is outside the repository. The scanner sees it through the calls it makes
  and the answers it gets; the model records the calls in a log, in order, and takes the
  answers from an \<open>engine\<close> record.
\<close>

datatype state = STATE_NULL | STATE_READY | STATE_PAUSED | STATE_PLAYING

datatype state_change_return =
    STATE_CHANGE_FAILURE
  | STATE_CHANGE_SUCCESS
  | STATE_CHANGE_ASYNC
  | STATE_CHANGE_NO_PREROLL

text \<open>The elements a bus message can come from: the scanner's pipeline or one of its children.\<close>

datatype element = Pipeline | Uridecodebin | Fakesink | Element string

text \<open>
  A tag list maps each of its keys to one value (several values of one tag arrive as one
  list value): an association list, \<^verbatim>\<open>keys()\<close> its first components and
  \<^verbatim>\<open>taglist[key]\<close> the lookup.
\<close>

type_synonym taglist = "(string \<times> pyval) list"

datatype message_type =
    MESSAGE_ERROR string
  | MESSAGE_EOS
  | MESSAGE_ASYNC_DONE
  | MESSAGE_TAG taglist
  | MESSAGE_OTHER

record message =
  msg_type :: message_type
  msg_src :: element

text \<open>
  One turn of the polling loop as the environment answers it: what \<^verbatim>\<open>time.time()\<close>
  returns in the loop condition and, if the body runs, what the bus holds
  (\<open>None\<close>: \<^verbatim>\<open>have_pending()\<close> is false; \<open>Some m\<close>: it is true and \<^verbatim>\<open>pop()\<close> returns \<open>m\<close>).
\<close>

record tick =
  tick_time :: real
  tick_pending :: "message option"

text \<open>
  The answers of the environment during one \<^verbatim>\<open>scan\<close>: the result of each
  \<^verbatim>\<open>set_state\<close>, the clock reading at loop entry, the turns of the loop that were
  observed, the duration query (\<open>None\<close>: \<^verbatim>\<open>gst.QueryError\<close>; the value is in
  \<^verbatim>\<open>gst.FORMAT_TIME\<close>, nanoseconds) and \<^verbatim>\<open>os.path.getmtime(path.uri_to_path(uri))\<close>
  (\<open>None\<close>: it raises \<^verbatim>\<open>OSError\<close>).
\<close>

record engine =
  set_state_result :: "state \<Rightarrow> state_change_return"
  clock_start :: real
  ticks :: "tick list"
  duration_query :: "int option"
  getmtime :: "string \<Rightarrow> real option"

datatype call =
    SetState state
  | SetUri string
  | SetFlushing bool
  | HavePending
  | Pop
  | QueryDuration

text \<open>\<^verbatim>\<open>gst.MSECOND\<close>: the nanoseconds in a millisecond.\<close>

definition MSECOND :: int where
  "MSECOND = 1000000"

definition TAG_DURATION :: string where
  "TAG_DURATION = ''duration''"

section \<open>Scanner\<close>

record scanner =
  timeout_ms :: int
  min_duration_ms :: "int option"

text \<open>\<^verbatim>\<open>_setup\<close>: primes the pipeline; a live source goes on to playing.\<close>

definition Scanner_setup :: "engine \<Rightarrow> string \<Rightarrow> call list \<Rightarrow> call list" where
  "Scanner_setup w uri lg =
     (let lg = lg @ [SetState STATE_READY];
          lg = lg @ [SetUri uri];
          lg = lg @ [SetFlushing False];
          lg = lg @ [SetState STATE_PAUSED];
          result = set_state_result w STATE_PAUSED
      in if result = STATE_CHANGE_NO_PREROLL then lg @ [SetState STATE_PLAYING] else lg)"

text \<open>The inner loop of \<^verbatim>\<open>_collect\<close>: \<^verbatim>\<open>for key in taglist.keys(): data[key] = taglist[key]\<close>.\<close>

fun merge_keys :: "taglist \<Rightarrow> string list \<Rightarrow> data \<Rightarrow> data" where
  "merge_keys taglist [] d = d"
| "merge_keys taglist (key # keys) d =
     (case map_of taglist key of
        Some v \<Rightarrow> merge_keys taglist keys (d(key \<mapsto> v))
      | None \<Rightarrow> merge_keys taglist keys d)"

definition merge_tags :: "taglist \<Rightarrow> data \<Rightarrow> data" where
  "merge_tags taglist d = merge_keys taglist (map fst taglist) d"

text \<open>
  \<^verbatim>\<open>timeout_s\<close> and the loop condition, in exact arithmetic. The float arithmetic of
  Python is made explicit in the section on the runtime below.
\<close>

definition timeout_s :: "scanner \<Rightarrow> real" where
  "timeout_s sc = real_of_int (timeout_ms sc) / 1000"

definition timeout_error :: "scanner \<Rightarrow> exn" where
  "timeout_error sc = ScannerError (''Timeout after '' @ format_d (timeout_ms sc) @ ''ms'')"

text \<open>
  The \<^verbatim>\<open>while\<close> loop of \<^verbatim>\<open>_collect\<close>, one equation per turn. When the observed turns
  are used up and the loop has neither returned nor raised, the result is \<open>None\<close>.
\<close>

fun collect_loop ::
  "scanner \<Rightarrow> real \<Rightarrow> tick list \<Rightarrow> data \<Rightarrow> call list \<Rightarrow> ((exn + data) \<times> call list) option" where
  "collect_loop sc start [] d lg = None"
| "collect_loop sc start (t # ts) d lg =
     (if tick_time t - start < timeout_s sc then
        (case tick_pending t of
           None \<Rightarrow> collect_loop sc start ts d (lg @ [HavePending])
         | Some m \<Rightarrow>
             (case msg_type m of
                MESSAGE_ERROR e \<Rightarrow> Some (Inl (ScannerError e), lg @ [HavePending, Pop])
              | MESSAGE_EOS \<Rightarrow> Some (Inr d, lg @ [HavePending, Pop])
              | MESSAGE_ASYNC_DONE \<Rightarrow>
                  if msg_src m = Pipeline then Some (Inr d, lg @ [HavePending, Pop])
                  else collect_loop sc start ts d (lg @ [HavePending, Pop])
              | MESSAGE_TAG taglist \<Rightarrow>
                  collect_loop sc start ts (merge_tags taglist d) (lg @ [HavePending, Pop])
              | MESSAGE_OTHER \<Rightarrow> collect_loop sc start ts d (lg @ [HavePending, Pop])))
      else Some (Inl (timeout_error sc), lg))"

definition Scanner_collect ::
  "scanner \<Rightarrow> engine \<Rightarrow> call list \<Rightarrow> ((exn + data) \<times> call list) option" where
  "Scanner_collect sc w lg = collect_loop sc (clock_start w) (ticks w) Map.empty lg"

text \<open>\<^verbatim>\<open>_reset\<close>: the result of \<^verbatim>\<open>set_state\<close> is not looked at.\<close>

definition Scanner_reset :: "engine \<Rightarrow> call list \<Rightarrow> call list" where
  "Scanner_reset w lg =
     (let lg = lg @ [SetFlushing True];
          lg = lg @ [SetState STATE_NULL]
      in lg)"

definition Scanner_query_duration :: "engine \<Rightarrow> call list \<Rightarrow> pyval \<times> call list" where
  "Scanner_query_duration w lg =
     (case duration_query w of
        Some d \<Rightarrow> (VInt d, lg @ [QueryDuration])
      | None \<Rightarrow> (VNone, lg @ [QueryDuration]))"

definition startswith :: "string \<Rightarrow> string \<Rightarrow> bool" where
  "startswith s p = (take (length p) s = p)"

definition Scanner_query_mtime :: "engine \<Rightarrow> string \<Rightarrow> exn + pyval" where
  "Scanner_query_mtime w uri =
     (if \<not> startswith uri ''file:'' then Inr VNone
      else case getmtime w uri of
             Some t \<Rightarrow> Inr (VFloat t)
           | None \<Rightarrow> Inl OSError)"

text \<open>
  The body of the \<^verbatim>\<open>try\<close> block of \<^verbatim>\<open>scan\<close>; \<open>None\<close> when the loop has not
  finished within the observed turns.
\<close>

definition scan_try ::
  "scanner \<Rightarrow> engine \<Rightarrow> string \<Rightarrow> ((exn + data) \<times> call list) option" where
  "scan_try sc w uri =
     (case Scanner_collect sc w (Scanner_setup w uri []) of
        None \<Rightarrow> None
      | Some (Inl e, lg) \<Rightarrow> Some (Inl e, lg)
      | Some (Inr d, lg) \<Rightarrow>
          (let d = d(''uri'' \<mapsto> VStr uri)
           in case Scanner_query_mtime w uri of
                Inl e \<Rightarrow> Some (Inl e, lg)
              | Inr mtime \<Rightarrow>
                  (let d = d(''mtime'' \<mapsto> mtime);
                       (duration, lg) = Scanner_query_duration w lg
                   in Some (Inr (d(TAG_DURATION \<mapsto> duration)), lg))))"

text \<open>
  The comparison \<^verbatim>\<open>data[gst.TAG_DURATION] >= self._min_duration_ms * gst.MSECOND\<close>. After
  the \<^verbatim>\<open>try\<close> block the duration key holds an integer or None; in Python 2 None is
  smaller than every number, and every object that is not a number is greater.
\<close>

fun duration_ge :: "pyval \<Rightarrow> int \<Rightarrow> bool" where
  "duration_ge (VInt d) n = (d \<ge> n)"
| "duration_ge (VFloat r) n = (r \<ge> real_of_int n)"
| "duration_ge VNone n = False"
| "duration_ge v n = True"

definition rejecting_error :: "int \<Rightarrow> exn" where
  "rejecting_error m =
     ScannerError (''Rejecting file with less than '' @ format_d m @ ''ms audio data.'')"

text \<open>The part of \<^verbatim>\<open>scan\<close> after the \<^verbatim>\<open>finally\<close>.\<close>

definition accept :: "scanner \<Rightarrow> data \<Rightarrow> exn + data" where
  "accept sc d =
     (case min_duration_ms sc of
        None \<Rightarrow> Inr d
      | Some m \<Rightarrow>
          (case d TAG_DURATION of
             None \<Rightarrow> Inl (KeyError TAG_DURATION)
           | Some v \<Rightarrow> if duration_ge v (m * MSECOND) then Inr d else Inl (rejecting_error m)))"

definition scan :: "scanner \<Rightarrow> engine \<Rightarrow> string \<Rightarrow> ((exn + data) \<times> call list) option" where
  "scan sc w uri =
     (case scan_try sc w uri of
        None \<Rightarrow> None
      | Some (r, lg) \<Rightarrow>
          (let lg = Scanner_reset w lg
           in case r of
                Inl e \<Rightarrow> Some (Inl e, lg)
              | Inr d \<Rightarrow> Some (accept sc d, lg)))"

section \<open>The scanner on Python's runtime\<close>

text \<open>
  The functions above take two things for granted: the clock arithmetic of \<^verbatim>\<open>_collect\<close>
  is exact, and a call of the engine in \<^verbatim>\<open>_reset\<close> returns. Python computes
  \<^verbatim>\<open>self._timeout_ms / float(1000)\<close> and \<^verbatim>\<open>time.time() - start\<close> in floats, and
  \<^verbatim>\<open>_reset\<close> has no \<^verbatim>\<open>try\<close>. The functions of this section make both explicit.

  The float arithmetic is a parameter: the quotient of an integer by a float
  (\<open>None\<close>: the integer is too large for a float, \<^verbatim>\<open>OverflowError\<close>) and the
  difference of two floats. Floats are the reals they denote and are compared as such.
\<close>

record float_ops =
  int_div_float :: "int \<Rightarrow> real \<Rightarrow> real option"
  float_sub :: "real \<Rightarrow> real \<Rightarrow> real"

text \<open>The \<^verbatim>\<open>while\<close> loop of \<^verbatim>\<open>_collect\<close> once more, \<open>limit\<close> being \<^verbatim>\<open>timeout_s\<close>.\<close>

fun collect_loop_float ::
  "float_ops \<Rightarrow> scanner \<Rightarrow> real \<Rightarrow> real \<Rightarrow> tick list \<Rightarrow> data \<Rightarrow> call list \<Rightarrow>
     ((exn + data) \<times> call list) option" where
  "collect_loop_float fl sc start limit [] d lg = None"
| "collect_loop_float fl sc start limit (t # ts) d lg =
     (if float_sub fl (tick_time t) start < limit then
        (case tick_pending t of
           None \<Rightarrow> collect_loop_float fl sc start limit ts d (lg @ [HavePending])
         | Some m \<Rightarrow>
             (case msg_type m of
                MESSAGE_ERROR e \<Rightarrow> Some (Inl (ScannerError e), lg @ [HavePending, Pop])
              | MESSAGE_EOS \<Rightarrow> Some (Inr d, lg @ [HavePending, Pop])
              | MESSAGE_ASYNC_DONE \<Rightarrow>
                  if msg_src m = Pipeline then Some (Inr d, lg @ [HavePending, Pop])
                  else collect_loop_float fl sc start limit ts d (lg @ [HavePending, Pop])
              | MESSAGE_TAG taglist \<Rightarrow>
                  collect_loop_float fl sc start limit ts (merge_tags taglist d)
                    (lg @ [HavePending, Pop])
              | MESSAGE_OTHER \<Rightarrow>
                  collect_loop_float fl sc start limit ts d (lg @ [HavePending, Pop])))
      else Some (Inl (timeout_error sc), lg))"

definition Scanner_collect_float ::
  "float_ops \<Rightarrow> scanner \<Rightarrow> engine \<Rightarrow> call list \<Rightarrow> ((exn + data) \<times> call list) option" where
  "Scanner_collect_float fl sc w lg =
     (case int_div_float fl (timeout_ms sc) 1000 of
        None \<Rightarrow> Some (Inl OverflowError, lg)
      | Some limit \<Rightarrow> collect_loop_float fl sc (clock_start w) limit (ticks w) Map.empty lg)"

definition scan_try_runtime ::
  "float_ops \<Rightarrow> scanner \<Rightarrow> engine \<Rightarrow> string \<Rightarrow> ((exn + data) \<times> call list) option" where
  "scan_try_runtime fl sc w uri =
     (case Scanner_collect_float fl sc w (Scanner_setup w uri []) of
        None \<Rightarrow> None
      | Some (Inl e, lg) \<Rightarrow> Some (Inl e, lg)
      | Some (Inr d, lg) \<Rightarrow>
          (let d = d(''uri'' \<mapsto> VStr uri)
           in case Scanner_query_mtime w uri of
                Inl e \<Rightarrow> Some (Inl e, lg)
              | Inr mtime \<Rightarrow>
                  (let d = d(''mtime'' \<mapsto> mtime);
                       (duration, lg) = Scanner_query_duration w lg
                   in Some (Inr (d(TAG_DURATION \<mapsto> duration)), lg))))"

text \<open>
  \<^verbatim>\<open>_reset\<close> when a call of the engine may raise: \<open>raises c\<close> is the exception that the
  call \<open>c\<close> raises, if it raises. An exception ends \<^verbatim>\<open>_reset\<close> at that call.
\<close>

definition Scanner_reset_raising :: "(call \<Rightarrow> exn option) \<Rightarrow> call list \<Rightarrow> exn option \<times> call list" where
  "Scanner_reset_raising raises lg =
     (let lg = lg @ [SetFlushing True]
      in case raises (SetFlushing True) of
           Some e \<Rightarrow> (Some e, lg)
         | None \<Rightarrow>
             (let lg = lg @ [SetState STATE_NULL]
              in case raises (SetState STATE_NULL) of
                   Some e \<Rightarrow> (Some e, lg)
                 | None \<Rightarrow> (None, lg)))"

text \<open>
  The \<^verbatim>\<open>finally\<close> clause of \<^verbatim>\<open>scan\<close> and what follows it, for an outcome of the
  \<^verbatim>\<open>try\<close> block (a dictionary, or the exception that ended the block) and the calls made
  so far. An exception of the \<^verbatim>\<open>finally\<close> clause takes the place of the block's outcome.
\<close>

definition scan_finally ::
  "scanner \<Rightarrow> (call \<Rightarrow> exn option) \<Rightarrow> (exn + data) \<times> call list \<Rightarrow> (exn + data) \<times> call list" where
  "scan_finally sc raises outcome =
     (case outcome of
        (r, lg) \<Rightarrow>
          (case Scanner_reset_raising raises lg of
             (Some e, lg) \<Rightarrow> (Inl e, lg)
           | (None, lg) \<Rightarrow>
               (case r of
                  Inl e \<Rightarrow> (Inl e, lg)
                | Inr d \<Rightarrow> (accept sc d, lg))))"

definition scan_runtime ::
  "float_ops \<Rightarrow> (call \<Rightarrow> exn option) \<Rightarrow> scanner \<Rightarrow> engine \<Rightarrow> string \<Rightarrow>
     ((exn + data) \<times> call list) option" where
  "scan_runtime fl raises sc w uri =
     (case scan_try_runtime fl sc w uri of
        None \<Rightarrow> None
      | Some outcome \<Rightarrow> Some (scan_finally sc raises outcome))"

text \<open>Arithmetic without rounding, and an engine whose calls return.\<close>

definition exact_floats :: float_ops where
  "exact_floats = \<lparr>int_div_float = (\<lambda>i x. Some (real_of_int i / x)), float_sub = (\<lambda>a b. a - b)\<rparr>"

definition no_raise :: "call \<Rightarrow> exn option" where
  "no_raise c = None"



definition failing_teardown :: "call \<Rightarrow> exn option" where
  "failing_teardown c = (if c = SetState STATE_NULL then Some (GError ''state change failed'') else None)"

section \<open>Track, album and artist records\<close>

text \<open>
  Modelled from the spec: \<^verbatim>\<open>mopidy.models\<close> (\<^verbatim>\<open>Artist\<close>, \<^verbatim>\<open>Album\<close>, \<^verbatim>\<open>Track\<close>) is
  not part of the source at hand. The spec describes simple immutable record
  constructors: each keeps the fields it is given by keyword, a field not given is absent,
  and the artist fields are ordered sequences of artist records, empty when nothing (or
  an empty value such as the empty string) is given.
\<close>

record artist =
  artist_name :: "pyval option"
  artist_musicbrainz_id :: "pyval option"

record album =
  album_name :: "pyval option"
  album_num_tracks :: "pyval option"
  album_num_discs :: "pyval option"
  album_musicbrainz_id :: "pyval option"
  album_artists :: "artist list"

record track =
  track_uri :: "pyval option"
  track_name :: "pyval option"
  track_track_no :: "pyval option"
  track_disc_no :: "pyval option"
  track_genre :: "pyval option"
  track_bitrate :: "pyval option"
  track_comment :: "pyval option"
  track_musicbrainz_id :: "pyval option"
  track_date :: "pyval option"
  track_length :: "pyval option"
  track_last_modified :: "pyval option"
  track_album :: "album option"
  track_artists :: "artist list"
  track_composers :: "artist list"
  track_performers :: "artist list"

text \<open>
  The keyword dictionaries (\<^verbatim>\<open>album_kwargs\<close>, \<^verbatim>\<open>track_kwargs\<close>, ...) hold tag values,
  an album or a list of artists; they are association lists from the keyword.
\<close>

datatype kwval = Val pyval | AlbumVal album | Artists "artist list"

type_synonym kwargs = "(string \<times> kwval) list"

fun val_of :: "kwval option \<Rightarrow> pyval option" where
  "val_of (Some (Val v)) = Some v"
| "val_of other = None"

fun artists_of :: "kwval option \<Rightarrow> artist list" where
  "artists_of (Some (Artists xs)) = xs"
| "artists_of other = []"

fun album_of :: "kwval option \<Rightarrow> album option" where
  "album_of (Some (AlbumVal a)) = Some a"
| "album_of other = None"

definition Artist :: "kwargs \<Rightarrow> artist" where
  "Artist kw =
     \<lparr>artist_name = val_of (map_of kw ''name''),
      artist_musicbrainz_id = val_of (map_of kw ''musicbrainz_id'')\<rparr>"

definition Album :: "kwargs \<Rightarrow> album" where
  "Album kw =
     \<lparr>album_name = val_of (map_of kw ''name''),
      album_num_tracks = val_of (map_of kw ''num_tracks''),
      album_num_discs = val_of (map_of kw ''num_discs''),
      album_musicbrainz_id = val_of (map_of kw ''musicbrainz_id''),
      album_artists = artists_of (map_of kw ''artists'')\<rparr>"

definition Track :: "kwargs \<Rightarrow> track" where
  "Track kw =
     \<lparr>track_uri = val_of (map_of kw ''uri''),
      track_name = val_of (map_of kw ''name''),
      track_track_no = val_of (map_of kw ''track_no''),
      track_disc_no = val_of (map_of kw ''disc_no''),
      track_genre = val_of (map_of kw ''genre''),
      track_bitrate = val_of (map_of kw ''bitrate''),
      track_comment = val_of (map_of kw ''comment''),
      track_musicbrainz_id = val_of (map_of kw ''musicbrainz_id''),
      track_date = val_of (map_of kw ''date''),
      track_length = val_of (map_of kw ''length''),
      track_last_modified = val_of (map_of kw ''last_modified''),
      track_album = album_of (map_of kw ''album''),
      track_artists = artists_of (map_of kw ''artists''),
      track_composers = artists_of (map_of kw ''composers''),
      track_performers = artists_of (map_of kw ''performers'')\<rparr>"

section \<open>The tag names of GStreamer\<close>

named_theorems tag_defs

definition TAG_ALBUM :: string where [tag_defs]: "TAG_ALBUM = ''album''"
definition TAG_TRACK_COUNT :: string where [tag_defs]: "TAG_TRACK_COUNT = ''track-count''"
definition TAG_ALBUM_VOLUME_COUNT :: string where
  [tag_defs]: "TAG_ALBUM_VOLUME_COUNT = ''album-disc-count''"
definition TAG_ARTIST :: string where [tag_defs]: "TAG_ARTIST = ''artist''"
definition TAG_COMPOSER :: string where [tag_defs]: "TAG_COMPOSER = ''composer''"
definition TAG_PERFORMER :: string where [tag_defs]: "TAG_PERFORMER = ''performer''"
definition TAG_ALBUM_ARTIST :: string where [tag_defs]: "TAG_ALBUM_ARTIST = ''album-artist''"
definition TAG_TITLE :: string where [tag_defs]: "TAG_TITLE = ''title''"
definition TAG_TRACK_NUMBER :: string where [tag_defs]: "TAG_TRACK_NUMBER = ''track-number''"
definition TAG_ALBUM_VOLUME_NUMBER :: string where
  [tag_defs]: "TAG_ALBUM_VOLUME_NUMBER = ''album-disc-number''"
definition TAG_GENRE :: string where [tag_defs]: "TAG_GENRE = ''genre''"
definition TAG_BITRATE :: string where [tag_defs]: "TAG_BITRATE = ''bitrate''"
definition TAG_ORGANIZATION :: string where [tag_defs]: "TAG_ORGANIZATION = ''organization''"
definition TAG_LOCATION :: string where [tag_defs]: "TAG_LOCATION = ''location''"
definition TAG_COPYRIGHT :: string where [tag_defs]: "TAG_COPYRIGHT = ''copyright''"
definition TAG_DATE :: string where [tag_defs]: "TAG_DATE = ''date''"

section \<open>\<^verbatim>\<open>audio_data_to_track\<close>\<close>

text \<open>\<^verbatim>\<open>dict.setdefault\<close> and the nested function \<^verbatim>\<open>_retrieve\<close>.\<close>

definition setdefault :: "string \<Rightarrow> kwval \<Rightarrow> kwargs \<Rightarrow> kwargs" where
  "setdefault key v kw = (if map_of kw key = None then kw @ [(key, v)] else kw)"

definition retrieve :: "data \<Rightarrow> string \<Rightarrow> string \<Rightarrow> kwargs \<Rightarrow> kwargs" where
  "retrieve d source_key target_key target =
     (case d source_key of
        Some v \<Rightarrow> setdefault target_key (Val v) target
      | None \<Rightarrow> target)"

text \<open>The twenty calls of \<^verbatim>\<open>_retrieve\<close>, in the order of the source.\<close>

definition retrieve_tags ::
  "data \<Rightarrow> kwargs \<times> kwargs \<times> kwargs \<times> kwargs \<times> kwargs \<times> kwargs" where
  "retrieve_tags d =
     (let albumartist_kwargs = [];
          album_kwargs = [];
          artist_kwargs = [];
          composer_kwargs = [];
          performer_kwargs = [];
          track_kwargs = [];
          album_kwargs = retrieve d TAG_ALBUM ''name'' album_kwargs;
          album_kwargs = retrieve d TAG_TRACK_COUNT ''num_tracks'' album_kwargs;
          album_kwargs = retrieve d TAG_ALBUM_VOLUME_COUNT ''num_discs'' album_kwargs;
          artist_kwargs = retrieve d TAG_ARTIST ''name'' artist_kwargs;
          composer_kwargs = retrieve d TAG_COMPOSER ''name'' composer_kwargs;
          performer_kwargs = retrieve d TAG_PERFORMER ''name'' performer_kwargs;
          albumartist_kwargs = retrieve d TAG_ALBUM_ARTIST ''name'' albumartist_kwargs;
          track_kwargs = retrieve d TAG_TITLE ''name'' track_kwargs;
          track_kwargs = retrieve d TAG_TRACK_NUMBER ''track_no'' track_kwargs;
          track_kwargs = retrieve d TAG_ALBUM_VOLUME_NUMBER ''disc_no'' track_kwargs;
          track_kwargs = retrieve d TAG_GENRE ''genre'' track_kwargs;
          track_kwargs = retrieve d TAG_BITRATE ''bitrate'' track_kwargs;
          track_kwargs = retrieve d ''comment'' ''comment'' track_kwargs;
          track_kwargs = retrieve d ''musicbrainz-trackid'' ''musicbrainz_id'' track_kwargs;
          artist_kwargs = retrieve d ''musicbrainz-artistid'' ''musicbrainz_id'' artist_kwargs;
          album_kwargs = retrieve d ''musicbrainz-albumid'' ''musicbrainz_id'' album_kwargs;
          albumartist_kwargs =
            retrieve d ''musicbrainz-albumartistid'' ''musicbrainz_id'' albumartist_kwargs;
          track_kwargs = retrieve d TAG_ORGANIZATION ''name'' track_kwargs;
          track_kwargs = retrieve d TAG_LOCATION ''comment'' track_kwargs;
          track_kwargs = retrieve d TAG_COPYRIGHT ''comment'' track_kwargs
      in (albumartist_kwargs, album_kwargs, artist_kwargs, composer_kwargs, performer_kwargs,
          track_kwargs))"

text \<open>\<^verbatim>\<open>datetime.date(year, month, day)\<close> raises \<^verbatim>\<open>ValueError\<close> outside the calendar.\<close>

definition is_leap :: "nat \<Rightarrow> bool" where
  "is_leap y = (y mod 4 = 0 \<and> (y mod 100 \<noteq> 0 \<or> y mod 400 = 0))"

definition days_in_month :: "nat \<Rightarrow> nat \<Rightarrow> nat" where
  "days_in_month y m =
     (if m = 2 then (if is_leap y then 29 else 28)
      else if m = 4 \<or> m = 6 \<or> m = 9 \<or> m = 11 then 30
      else 31)"

definition datetime_date :: "nat \<Rightarrow> nat \<Rightarrow> nat \<Rightarrow> exn + nat \<times> nat \<times> nat" where
  "datetime_date y m dd =
     (if 1 \<le> y \<and> y \<le> 9999 \<and> 1 \<le> m \<and> m \<le> 12 \<and> 1 \<le> dd \<and> dd \<le> days_in_month y m
      then Inr (y, m, dd) else Inl ValueError)"

definition zero_pad :: "nat \<Rightarrow> string \<Rightarrow> string" where
  "zero_pad n s = replicate (n - length s) (CHR ''0'') @ s"

fun isoformat :: "nat \<times> nat \<times> nat \<Rightarrow> string" where
  "isoformat (y, m, dd) =
     zero_pad 4 (decimal y) @ ''-'' @ zero_pad 2 (decimal m) @ ''-'' @
     zero_pad 2 (decimal dd)"

text \<open>
  The date block: a value without \<^verbatim>\<open>year\<close>, \<^verbatim>\<open>month\<close> and \<^verbatim>\<open>day\<close> attributes raises
  \<^verbatim>\<open>AttributeError\<close>, which the \<^verbatim>\<open>except ValueError\<close> does not catch.
\<close>

definition date_step :: "data \<Rightarrow> kwargs \<Rightarrow> exn + kwargs" where
  "date_step d track_kwargs =
     (case d TAG_DATE of
        None \<Rightarrow> Inr track_kwargs
      | Some v \<Rightarrow>
          if \<not> truthy v then Inr track_kwargs
          else (case v of
                  VDate y m dd \<Rightarrow>
                    (case datetime_date y m dd of
                       Inl e \<Rightarrow> Inr track_kwargs
                     | Inr date \<Rightarrow>
                         Inr (AList.update ''date'' (Val (VStr (isoformat date))) track_kwargs))
                | other \<Rightarrow> Inl AttributeError))"

text \<open>
  Python's \<^verbatim>\<open>int(x)\<close>: a float is truncated towards zero. What \<^verbatim>\<open>int\<close> makes of a
  string is Python's business and a parameter here (\<open>None\<close>: \<^verbatim>\<open>ValueError\<close>).
\<close>

fun py_int :: "(string \<Rightarrow> int option) \<Rightarrow> pyval \<Rightarrow> exn + int" where
  "py_int int_str (VInt i) = Inr i"
| "py_int int_str (VFloat r) = Inr (if 0 \<le> r then \<lfloor>r\<rfloor> else \<lceil>r\<rceil>)"
| "py_int int_str (VStr s) = (case int_str s of Some i \<Rightarrow> Inr i | None \<Rightarrow> Inl ValueError)"
| "py_int int_str other = Inl TypeError"

definition mtime_step :: "(string \<Rightarrow> int option) \<Rightarrow> data \<Rightarrow> kwargs \<Rightarrow> exn + kwargs" where
  "mtime_step int_str d track_kwargs =
     (case d ''mtime'' of
        None \<Rightarrow> Inl (KeyError ''mtime'')
      | Some v \<Rightarrow>
          if truthy v then
            (case py_int int_str v of
               Inl e \<Rightarrow> Inl e
             | Inr i \<Rightarrow> Inr (AList.update ''last_modified'' (Val (VInt i)) track_kwargs))
          else Inr track_kwargs)"

text \<open>\<^verbatim>\<open>x // gst.MSECOND\<close>: floor division of a number, \<^verbatim>\<open>TypeError\<close> for the rest.\<close>

fun floordiv_MSECOND :: "pyval \<Rightarrow> exn + pyval" where
  "floordiv_MSECOND (VInt i) = Inr (VInt (i div MSECOND))"
| "floordiv_MSECOND (VFloat r) = Inr (VFloat (real_of_int \<lfloor>r / real_of_int MSECOND\<rfloor>))"
| "floordiv_MSECOND other = Inl TypeError"

definition duration_step :: "data \<Rightarrow> kwargs \<Rightarrow> exn + kwargs" where
  "duration_step d track_kwargs =
     (case d TAG_DURATION of
        None \<Rightarrow> Inl (KeyError TAG_DURATION)
      | Some v \<Rightarrow>
          if truthy v then
            (case floordiv_MSECOND v of
               Inl e \<Rightarrow> Inl e
             | Inr n \<Rightarrow> Inr (AList.update ''length'' (Val n) track_kwargs))
          else Inr track_kwargs)"

text \<open>
  The three blocks on \<^verbatim>\<open>artist_kwargs\<close>, \<^verbatim>\<open>composer_kwargs\<close> and
  \<^verbatim>\<open>performer_kwargs\<close> share their first branch: a name that is not a string is
  iterated, one \<^verbatim>\<open>Artist(name=...)\<close> per element. Only a list can be iterated. The
  \<^verbatim>\<open>else\<close> branch differs and is the second argument. These three dictionaries are
  written by \<^verbatim>\<open>_retrieve\<close> only, so a name is always a tag value; the last case of
  \<open>artists_block\<close> is there for the type and is never taken.
\<close>

fun is_basestring :: "pyval \<Rightarrow> bool" where
  "is_basestring (VStr s) = True"
| "is_basestring other = False"

fun iterate :: "pyval \<Rightarrow> exn + pyval list" where
  "iterate (VStrs xs) = Inr (map VStr xs)"
| "iterate other = Inl TypeError"

definition artists_block :: "kwargs \<Rightarrow> kwval \<Rightarrow> exn + kwval" where
  "artists_block kw otherwise =
     (case map_of kw ''name'' of
        None \<Rightarrow> Inr otherwise
      | Some (Val v) \<Rightarrow>
          if \<not> is_basestring v then
            (case iterate v of
               Inl e \<Rightarrow> Inl e
             | Inr xs \<Rightarrow> Inr (Artists (map (\<lambda>a. Artist [(''name'', Val a)]) xs)))
          else Inr otherwise
      | Some other \<Rightarrow> Inl TypeError)"

definition audio_data_to_track :: "(string \<Rightarrow> int option) \<Rightarrow> data \<Rightarrow> exn + track" where
  "audio_data_to_track int_str d =
     (case retrieve_tags d of
        (albumartist_kwargs, album_kwargs, artist_kwargs, composer_kwargs, performer_kwargs,
         track_kwargs) \<Rightarrow>
     (case date_step d track_kwargs of Inl e \<Rightarrow> Inl e | Inr track_kwargs \<Rightarrow>
     (let album_kwargs =
            (if albumartist_kwargs \<noteq> []
             then AList.update ''artists'' (Artists [Artist albumartist_kwargs]) album_kwargs
             else album_kwargs)
      in
     (case mtime_step int_str d track_kwargs of Inl e \<Rightarrow> Inl e | Inr track_kwargs \<Rightarrow>
     (case duration_step d track_kwargs of Inl e \<Rightarrow> Inl e | Inr track_kwargs \<Rightarrow>
     (case d ''uri'' of None \<Rightarrow> Inl (KeyError ''uri'') | Some uri \<Rightarrow>
     (let track_kwargs = AList.update ''uri'' (Val uri) track_kwargs;
          track_kwargs = AList.update ''album'' (AlbumVal (Album album_kwargs)) track_kwargs
      in
     (case artists_block artist_kwargs (Artists [Artist artist_kwargs]) of
        Inl e \<Rightarrow> Inl e
      | Inr artists \<Rightarrow>
     (let track_kwargs = AList.update ''artists'' artists track_kwargs in
     (case artists_block composer_kwargs
             (if composer_kwargs \<noteq> [] then Artists [Artist composer_kwargs] else Val (VStr []))
      of Inl e \<Rightarrow> Inl e
       | Inr composers \<Rightarrow>
     (let track_kwargs = AList.update ''composers'' composers track_kwargs in
     (case artists_block performer_kwargs
             (if performer_kwargs \<noteq> [] then Artists [Artist performer_kwargs]
              else Val (VStr []))
      of Inl e \<Rightarrow> Inl e
       | Inr performers \<Rightarrow>
     (let track_kwargs = AList.update ''performers'' performers track_kwargs
      in Inr (Track track_kwargs))))))))))))))"

section \<open>Notions used to state the properties\<close>

text \<open>A turn whose clock reading is still within the timeout: the loop body runs.\<close>

definition in_time :: "scanner \<Rightarrow> real \<Rightarrow> tick \<Rightarrow> bool" where
  "in_time sc start t = (tick_time t - start < timeout_s sc)"

text \<open>
  The terminal events: an error, the end of the stream, and the settling of the pipeline
  itself.
\<close>

definition terminal :: "message \<Rightarrow> bool" where
  "terminal m =
     (case msg_type m of
        MESSAGE_ERROR e \<Rightarrow> True
      | MESSAGE_EOS \<Rightarrow> True
      | MESSAGE_ASYNC_DONE \<Rightarrow> msg_src m = Pipeline
      | MESSAGE_TAG taglist \<Rightarrow> False
      | MESSAGE_OTHER \<Rightarrow> False)"

text \<open>A turn that delivers no terminal event.\<close>

definition quiet :: "tick \<Rightarrow> bool" where
  "quiet t = (case tick_pending t of None \<Rightarrow> True | Some m \<Rightarrow> \<not> terminal m)"

text \<open>The tag map after a run of turns: each tag event is laid over what was there.\<close>

fun tags_of :: "tick list \<Rightarrow> data \<Rightarrow> data" where
  "tags_of [] d = d"
| "tags_of (t # ts) d =
     (case tick_pending t of
        None \<Rightarrow> tags_of ts d
      | Some m \<Rightarrow>
          (case msg_type m of
             MESSAGE_TAG taglist \<Rightarrow> tags_of ts (d ++ map_of taglist)
           | other \<Rightarrow> tags_of ts d))"

text \<open>The bus calls of a run of turns whose bodies all run.\<close>

fun polls_of :: "tick list \<Rightarrow> call list" where
  "polls_of [] = []"
| "polls_of (t # ts) =
     (case tick_pending t of
        None \<Rightarrow> HavePending # polls_of ts
      | Some m \<Rightarrow> HavePending # Pop # polls_of ts)"

text \<open>The value a returned dictionary holds under a key.\<close>

definition returned_key :: "string \<Rightarrow> ((exn + data) \<times> call list) option \<Rightarrow> pyval option" where
  "returned_key k res = (case res of Some (Inr d, lg) \<Rightarrow> d k | other \<Rightarrow> None)"

subsection \<open>Concrete runs\<close>

definition message_tick :: "real \<Rightarrow> message_type \<Rightarrow> element \<Rightarrow> tick" where
  "message_tick t ty el = \<lparr>tick_time = t, tick_pending = Some \<lparr>msg_type = ty, msg_src = el\<rparr>\<rparr>"

definition idle_tick :: "real \<Rightarrow> tick" where
  "idle_tick t = \<lparr>tick_time = t, tick_pending = None\<rparr>"

definition example_engine :: "tick list \<Rightarrow> int option \<Rightarrow> engine" where
  "example_engine ts dur =
     \<lparr>set_state_result = (\<lambda>s. STATE_CHANGE_ASYNC), clock_start = 0, ticks = ts,
      duration_query = dur, getmtime = (\<lambda>u. Some 1400000000)\<rparr>"

definition example_scanner :: scanner where
  "example_scanner = \<lparr>timeout_ms = 1000, min_duration_ms = Some 100\<rparr>"

text \<open>
  The dictionaries the scanner hands over, by the types of their values: the locator under
  uri, a float or None under mtime, an integer or None under the duration key, a date
  under the date key if there is one, and a string or a list of strings as the name of
  the artist, the composer and the performer.
\<close>

fun name_value :: "pyval option \<Rightarrow> bool" where
  "name_value None = True"
| "name_value (Some (VStr s)) = True"
| "name_value (Some (VStrs xs)) = True"
| "name_value other = False"

definition raw_metadata :: "data \<Rightarrow> bool" where
  "raw_metadata d =
     ((case d ''uri'' of Some (VStr u) \<Rightarrow> True | other \<Rightarrow> False) \<and>
      (case d ''mtime'' of Some VNone \<Rightarrow> True | Some (VFloat r) \<Rightarrow> True | other \<Rightarrow> False) \<and>
      (case d TAG_DURATION of Some VNone \<Rightarrow> True | Some (VInt n) \<Rightarrow> True | other \<Rightarrow> False) \<and>
      (case d TAG_DATE of None \<Rightarrow> True | Some (VDate y m dd) \<Rightarrow> True | other \<Rightarrow> False) \<and>
      name_value (d TAG_ARTIST) \<and> name_value (d TAG_COMPOSER) \<and> name_value (d TAG_PERFORMER))"

text \<open>A dictionary with the reserved keys set and the given tags, and the track it maps to.\<close>

definition example_data :: "taglist \<Rightarrow> data" where
  "example_data tags =
     [''uri'' \<mapsto> VStr ''http://example.com/a.ogg'', ''mtime'' \<mapsto> VNone,
      ''duration'' \<mapsto> VInt 150000000] ++ map_of tags"

definition example_track :: "pyval option \<Rightarrow> artist list \<Rightarrow> track" where
  "example_track name artists =
     \<lparr>track_uri = Some (VStr ''http://example.com/a.ogg''), track_name = name,
      track_track_no = None, track_disc_no = None, track_genre = None, track_bitrate = None,
      track_comment = None, track_musicbrainz_id = None, track_date = None,
      track_length = Some (VInt 150), track_last_modified = None,
      track_album =
        Some \<lparr>album_name = None, album_num_tracks = None, album_num_discs = None,
              album_musicbrainz_id = None, album_artists = []\<rparr>,
      track_artists = artists, track_composers = [], track_performers = []\<rparr>"

section \<open>Properties of the scanner\<close>

lemmas scan_eval =
  scan_def scan_try_def Scanner_collect_def Scanner_setup_def Scanner_reset_def
  Scanner_query_mtime_def Scanner_query_duration_def startswith_def accept_def timeout_s_def
  TAG_DURATION_def MSECOND_def example_engine_def example_scanner_def message_tick_def
  idle_tick_def returned_key_def


lemma format_d_100: "format_d 100 = ''100''"
  by (simp add: format_d_def decimal.simps [of 100] decimal.simps [of 10]
      decimal.simps [of "Suc 0"] digit_char_def)

lemma format_d_1000: "format_d 1000 = ''1000''"
  by (simp add: format_d_def decimal.simps [of 1000] decimal.simps [of 100]
      decimal.simps [of 10] decimal.simps [of "Suc 0"] digit_char_def)

lemma merge_keys_apply:
  "merge_keys tg ks d k = (if k \<in> set ks \<and> map_of tg k \<noteq> None then map_of tg k else d k)"
  by (induction ks arbitrary: d) (auto split: option.splits)

lemma merge_tags_map_add: "merge_tags tg d = d ++ map_of tg"
proof
  fix k
  show "merge_tags tg d k = (d ++ map_of tg) k"
    by (auto simp: merge_tags_def merge_keys_apply map_add_def map_of_eq_None_iff
        dom_map_of_conv_image_fst [symmetric] split: option.splits)
qed

lemma collect_loop_quiet_prefix:
  "list_all (in_time sc start) pre \<Longrightarrow> list_all quiet pre \<Longrightarrow>
   collect_loop sc start (pre @ ts) d lg =
   collect_loop sc start ts (tags_of pre d) (lg @ polls_of pre)"
proof (induction pre arbitrary: d lg)
  case Nil
  then show ?case by simp
next
  case (Cons t pre)
  then show ?case
    by (auto simp: in_time_def quiet_def terminal_def merge_tags_map_add
        split: option.splits message_type.splits)
qed

lemma setup_state_result:
  "Scanner_setup (w\<lparr>set_state_result := (set_state_result w)(STATE_NULL := res)\<rparr>) uri lg =
   Scanner_setup w uri lg"
  by (simp add: Scanner_setup_def)

lemma collect_state_result:
  "Scanner_collect sc (w\<lparr>set_state_result := f\<rparr>) lg = Scanner_collect sc w lg"
  by (simp add: Scanner_collect_def)

lemma query_mtime_state_result:
  "Scanner_query_mtime (w\<lparr>set_state_result := f\<rparr>) uri = Scanner_query_mtime w uri"
  by (simp add: Scanner_query_mtime_def)

lemma query_duration_state_result:
  "Scanner_query_duration (w\<lparr>set_state_result := f\<rparr>) lg = Scanner_query_duration w lg"
  by (simp add: Scanner_query_duration_def)

lemma scan_try_state_result:
  "scan_try sc (w\<lparr>set_state_result := (set_state_result w)(STATE_NULL := res)\<rparr>) uri =
   scan_try sc w uri"
  by (simp only: scan_try_def setup_state_result collect_state_result query_mtime_state_result
      query_duration_state_result)

lemma scan_try_data:
  "scan_try sc w uri = Some (Inr d, lg) \<Longrightarrow>
     d ''uri'' = Some (VStr uri) \<and>
     (\<exists>m. Scanner_query_mtime w uri = Inr m \<and> d ''mtime'' = Some m) \<and>
     d TAG_DURATION = Some (case duration_query w of Some ns \<Rightarrow> VInt ns | None \<Rightarrow> VNone)"
  by (auto simp: scan_try_def Scanner_query_mtime_def Scanner_query_duration_def TAG_DURATION_def
      Let_def split: option.splits sum.splits if_splits prod.splits)

lemma scan_returns:
  "scan sc w uri = Some (Inr d, lg) \<Longrightarrow> \<exists>lg'. scan_try sc w uri = Some (Inr d, lg')"
  by (auto simp: scan_def accept_def Let_def split: option.splits sum.splits if_splits prod.splits)

lemma reset_log: "Scanner_reset w lg = lg @ [SetFlushing True, SetState STATE_NULL]"
  by (simp add: Scanner_reset_def)

lemma scan_unfold:
  "scan sc w uri =
     (case scan_try sc w uri of
        None \<Rightarrow> None
      | Some (r, lg) \<Rightarrow>
          Some (case r of Inl e \<Rightarrow> Inl e | Inr d \<Rightarrow> accept sc d,
                lg @ [SetFlushing True, SetState STATE_NULL]))"
  by (simp add: scan_def reset_log split: option.splits sum.splits prod.splits)

lemma scan_None_iff:
  "(scan sc w uri = None) = (Scanner_collect sc w (Scanner_setup w uri []) = None)"
  by (auto simp: scan_unfold scan_try_def Let_def
      split: option.splits sum.splits prod.splits)

lemma accept_duration:
  assumes "d TAG_DURATION = Some (case q of Some ns \<Rightarrow> VInt ns | None \<Rightarrow> VNone)"
  shows "accept sc d =
     (case min_duration_ms sc of
        None \<Rightarrow> Inr d
      | Some m \<Rightarrow>
          (case q of
             Some ns \<Rightarrow> if m \<le> ns div MSECOND then Inr d else Inl (rejecting_error m)
           | None \<Rightarrow> Inl (rejecting_error m)))"
proof -
  have "(m * MSECOND \<le> ns) = (m \<le> ns div MSECOND)" for m ns
    unfolding MSECOND_def by linarith
  with assms show ?thesis
    by (simp add: accept_def split: option.splits)
qed

subsection \<open>C1: the duration under the reserved key\<close>

text \<open>
  C1, as stated, says that the value stored under the duration key is the queried
  duration converted to milliseconds. It is not: a pipeline whose duration query answers
  150000000 (nanoseconds, that is 150 ms) yields a dictionary whose duration is
  150000000, not 150.
\<close>

theorem duration_not_milliseconds:
  "returned_key TAG_DURATION
     (scan example_scanner
        (example_engine [message_tick 0 MESSAGE_EOS Pipeline] (Some 150000000))
        ''http://example.com/a.ogg'') = Some (VInt 150000000) \<and>
   VInt 150000000 \<noteq> VInt (150000000 div MSECOND)"
  by (simp add: scan_eval)

text \<open>
  C1, amended: for every successful scan the value stored under the duration key is the
  answer of the duration query as it is, in the native time unit (nanoseconds), and None
  when the query fails.
\<close>

theorem duration_native_unit:
  "scan sc w uri = Some (Inr d, lg) \<Longrightarrow>
     d TAG_DURATION = Some (case duration_query w of Some ns \<Rightarrow> VInt ns | None \<Rightarrow> VNone)"
  using scan_returns scan_try_data by blast

theorem duration_native_unit_witness:
  "scan example_scanner
     (example_engine [message_tick 0 MESSAGE_EOS Pipeline] (Some 150000000))
     ''http://example.com/a.ogg'' =
   Some (Inr [''uri'' \<mapsto> VStr ''http://example.com/a.ogg'', ''mtime'' \<mapsto> VNone,
              ''duration'' \<mapsto> VInt 150000000],
         [SetState STATE_READY, SetUri ''http://example.com/a.ogg'', SetFlushing False,
          SetState STATE_PAUSED, HavePending, Pop, QueryDuration, SetFlushing True,
          SetState STATE_NULL]) \<and>
   [''uri'' \<mapsto> VStr ''http://example.com/a.ogg'', ''mtime'' \<mapsto> VNone,
    ''duration'' \<mapsto> VInt 150000000] TAG_DURATION = Some (VInt 150000000)"
proof -
  have run: "scan example_scanner
     (example_engine [message_tick 0 MESSAGE_EOS Pipeline] (Some 150000000))
     ''http://example.com/a.ogg'' =
   Some (Inr [''uri'' \<mapsto> VStr ''http://example.com/a.ogg'', ''mtime'' \<mapsto> VNone,
              ''duration'' \<mapsto> VInt 150000000],
         [SetState STATE_READY, SetUri ''http://example.com/a.ogg'', SetFlushing False,
          SetState STATE_PAUSED, HavePending, Pop, QueryDuration, SetFlushing True,
          SetState STATE_NULL])"
    by (simp add: scan_eval)
  from duration_native_unit [OF run] show ?thesis
    using run by (simp add: example_engine_def)
qed

lemma collect_loop_float_exact:
  "collect_loop_float exact_floats sc start (timeout_s sc) ts d lg = collect_loop sc start ts d lg"
  by (induction ts arbitrary: d lg)
     (auto simp: exact_floats_def split: option.splits message_type.splits)

lemma Scanner_collect_float_exact:
  "Scanner_collect_float exact_floats sc w lg = Scanner_collect sc w lg"
proof -
  have "int_div_float exact_floats (timeout_ms sc) 1000 = Some (timeout_s sc)"
    by (simp add: exact_floats_def timeout_s_def)
  then show ?thesis
    by (simp add: Scanner_collect_float_def Scanner_collect_def collect_loop_float_exact)
qed

lemma scan_try_runtime_exact: "scan_try_runtime exact_floats sc w uri = scan_try sc w uri"
  by (simp add: scan_try_runtime_def scan_try_def Scanner_collect_float_exact)



lemma scan_finally_unfold:
  "scan_finally sc raises (r, pre) =
     (case raises (SetFlushing True) of
        Some e \<Rightarrow> (Inl e, pre @ [SetFlushing True])
      | None \<Rightarrow>
          (case raises (SetState STATE_NULL) of
             Some e \<Rightarrow> (Inl e, pre @ [SetFlushing True, SetState STATE_NULL])
           | None \<Rightarrow>
               (case r of Inl e \<Rightarrow> Inl e | Inr d \<Rightarrow> accept sc d,
                pre @ [SetFlushing True, SetState STATE_NULL])))"
  by (simp add: scan_finally_def Scanner_reset_raising_def split: option.splits sum.splits)

lemma collect_float_state_result:
  "Scanner_collect_float fl sc (w\<lparr>set_state_result := f\<rparr>) lg = Scanner_collect_float fl sc w lg"
  by (simp add: Scanner_collect_float_def split: option.splits)

lemma scan_try_runtime_state_result:
  "scan_try_runtime fl sc (w\<lparr>set_state_result := (set_state_result w)(STATE_NULL := res)\<rparr>) uri =
   scan_try_runtime fl sc w uri"
  by (simp only: scan_try_runtime_def setup_state_result collect_float_state_result
      query_mtime_state_result query_duration_state_result)


lemma scan_runtime_state_result:
  "scan_runtime fl raises sc (w\<lparr>set_state_result := (set_state_result w)(STATE_NULL := res)\<rparr>) uri =
   scan_runtime fl raises sc w uri"
  by (simp add: scan_runtime_def scan_try_runtime_state_result)

subsection \<open>C2: teardown on every exit\<close>

text \<open>
  C2, as stated, says that teardown never raises and that any failure of the reset is
  swallowed. It is not so: \<^verbatim>\<open>_reset\<close> has no \<^verbatim>\<open>try\<close>, and when the engine raises
  in \<^verbatim>\<open>set_state(gst.STATE_NULL)\<close> that exception leaves \<^verbatim>\<open>scan\<close>, here in
  place of a dictionary that the acceptance check would have returned.
\<close>

theorem teardown_raises:
  "scan_runtime exact_floats failing_teardown example_scanner
     (example_engine [message_tick 0 MESSAGE_EOS Pipeline] (Some 150000000))
     ''http://example.com/a.ogg'' =
   Some (Inl (GError ''state change failed''),
         [SetState STATE_READY, SetUri ''http://example.com/a.ogg'', SetFlushing False,
          SetState STATE_PAUSED, HavePending, Pop, QueryDuration, SetFlushing True,
          SetState STATE_NULL])"
  by (simp add: scan_runtime_def scan_try_runtime_exact scan_finally_unfold failing_teardown_def
      scan_eval)

text \<open>
  C2, amended: whatever the outcome of the try block (a dictionary, the error of an
  error event, the timeout error or any other exception), the teardown is run after it,
  before scan returns or raises: the bus is set flushing and then, unless that call
  raised, the pipeline is set to the null state. The answer of that state change, a
  failure included, is discarded. An exception raised by one of the two calls is not
  caught: it leaves scan in place of the outcome of the try block.
\<close>

theorem teardown_after_try:
  "scan_finally sc raises (r, pre) =
     (case raises (SetFlushing True) of
        Some e \<Rightarrow> (Inl e, pre @ [SetFlushing True])
      | None \<Rightarrow>
          (case raises (SetState STATE_NULL) of
             Some e \<Rightarrow> (Inl e, pre @ [SetFlushing True, SetState STATE_NULL])
           | None \<Rightarrow>
               (case r of Inl e \<Rightarrow> Inl e | Inr d \<Rightarrow> accept sc d,
                pre @ [SetFlushing True, SetState STATE_NULL]))) \<and>
   (scan_runtime fl raises sc w uri = Some (r', lg) \<longrightarrow>
      (\<exists>r pre. scan_try_runtime fl sc w uri = Some (r, pre) \<and>
                (r', lg) = scan_finally sc raises (r, pre) \<and>
                (\<exists>ext. lg = pre @ SetFlushing True # ext))) \<and>
   scan_runtime fl raises sc (w\<lparr>set_state_result := (set_state_result w)(STATE_NULL := res)\<rparr>) uri =
     scan_runtime fl raises sc w uri"
proof (intro conjI impI)
  show "scan_finally sc raises (r, pre) =
     (case raises (SetFlushing True) of
        Some e \<Rightarrow> (Inl e, pre @ [SetFlushing True])
      | None \<Rightarrow>
          (case raises (SetState STATE_NULL) of
             Some e \<Rightarrow> (Inl e, pre @ [SetFlushing True, SetState STATE_NULL])
           | None \<Rightarrow>
               (case r of Inl e \<Rightarrow> Inl e | Inr d \<Rightarrow> accept sc d,
                pre @ [SetFlushing True, SetState STATE_NULL])))"
    by (rule scan_finally_unfold)
next
  assume run: "scan_runtime fl raises sc w uri = Some (r', lg)"
  then obtain r0 pre0 where
    tr: "scan_try_runtime fl sc w uri = Some (r0, pre0)" and
    fin: "(r', lg) = scan_finally sc raises (r0, pre0)"
    by (auto simp: scan_runtime_def split: option.splits)
  from fin have "\<exists>ext. lg = pre0 @ SetFlushing True # ext"
    by (auto simp: scan_finally_unfold split: option.splits)
  with tr fin show "\<exists>r pre. scan_try_runtime fl sc w uri = Some (r, pre) \<and>
                (r', lg) = scan_finally sc raises (r, pre) \<and>
                (\<exists>ext. lg = pre @ SetFlushing True # ext)"
    by blast
next
  show "scan_runtime fl raises sc (w\<lparr>set_state_result := (set_state_result w)(STATE_NULL := res)\<rparr>) uri =
     scan_runtime fl raises sc w uri"
    by (rule scan_runtime_state_result)
qed

theorem teardown_after_try_witness:
  "scan_runtime exact_floats failing_teardown example_scanner
     (example_engine [message_tick 0 (MESSAGE_ERROR ''no decoder'') Uridecodebin] None)
     ''http://example.com/a.ogg'' =
   Some (Inl (GError ''state change failed''),
         [SetState STATE_READY, SetUri ''http://example.com/a.ogg'', SetFlushing False,
          SetState STATE_PAUSED, HavePending, Pop, SetFlushing True, SetState STATE_NULL]) \<and>
   (\<exists>r pre.
      scan_try_runtime exact_floats example_scanner
        (example_engine [message_tick 0 (MESSAGE_ERROR ''no decoder'') Uridecodebin] None)
        ''http://example.com/a.ogg'' = Some (r, pre) \<and>
      (Inl (GError ''state change failed''),
       [SetState STATE_READY, SetUri ''http://example.com/a.ogg'', SetFlushing False,
        SetState STATE_PAUSED, HavePending, Pop, SetFlushing True, SetState STATE_NULL]) =
        scan_finally example_scanner failing_teardown (r, pre) \<and>
      (\<exists>ext.
         [SetState STATE_READY, SetUri ''http://example.com/a.ogg'', SetFlushing False,
          SetState STATE_PAUSED, HavePending, Pop, SetFlushing True, SetState STATE_NULL] =
         pre @ SetFlushing True # ext)) \<and>
   scan_finally example_scanner no_raise
     (Inl (ScannerError ''no decoder''),
      [SetState STATE_READY, SetUri ''http://example.com/a.ogg'', SetFlushing False,
       SetState STATE_PAUSED, HavePending, Pop]) =
   (Inl (ScannerError ''no decoder''),
    [SetState STATE_READY, SetUri ''http://example.com/a.ogg'', SetFlushing False,
     SetState STATE_PAUSED, HavePending, Pop, SetFlushing True, SetState STATE_NULL])"
proof -
  have run: "scan_runtime exact_floats failing_teardown example_scanner
     (example_engine [message_tick 0 (MESSAGE_ERROR ''no decoder'') Uridecodebin] None)
     ''http://example.com/a.ogg'' =
   Some (Inl (GError ''state change failed''),
         [SetState STATE_READY, SetUri ''http://example.com/a.ogg'', SetFlushing False,
          SetState STATE_PAUSED, HavePending, Pop, SetFlushing True, SetState STATE_NULL])"
    by (simp add: scan_runtime_def scan_try_runtime_exact scan_finally_unfold
        failing_teardown_def scan_eval)
  have fin: "scan_finally example_scanner no_raise
     (Inl (ScannerError ''no decoder''),
      [SetState STATE_READY, SetUri ''http://example.com/a.ogg'', SetFlushing False,
       SetState STATE_PAUSED, HavePending, Pop]) =
   (Inl (ScannerError ''no decoder''),
    [SetState STATE_READY, SetUri ''http://example.com/a.ogg'', SetFlushing False,
     SetState STATE_PAUSED, HavePending, Pop, SetFlushing True, SetState STATE_NULL])"
    using teardown_after_try
      [where sc = example_scanner and raises = no_raise
         and r = "Inl (ScannerError ''no decoder'')"
         and pre = "[SetState STATE_READY, SetUri ''http://example.com/a.ogg'', SetFlushing False,
           SetState STATE_PAUSED, HavePending, Pop]",
       THEN conjunct1]
    by (simp add: no_raise_def)
  from teardown_after_try [THEN conjunct2, THEN conjunct1, THEN mp, OF run] run fin
  show ?thesis by simp
qed

subsection \<open>C3: the acceptance check\<close>

text \<open>
  C3: when the try block of scan has produced a dictionary, scan returns it if the
  minimum duration is None; otherwise it returns it exactly when the duration query
  answered and the duration, in whole milliseconds, is at least the minimum, and raises
  the ScannerError about the minimum duration in every other case (a shorter duration,
  or none).
\<close>

theorem acceptance_check:
  "scan_try sc w uri = Some (Inr d, lg) \<Longrightarrow>
     scan sc w uri =
       Some (case min_duration_ms sc of
               None \<Rightarrow> Inr d
             | Some m \<Rightarrow>
                 (case duration_query w of
                    Some ns \<Rightarrow> if m \<le> ns div MSECOND then Inr d else Inl (rejecting_error m)
                  | None \<Rightarrow> Inl (rejecting_error m)),
             lg @ [SetFlushing True, SetState STATE_NULL])"
proof -
  assume tr: "scan_try sc w uri = Some (Inr d, lg)"
  then have "d TAG_DURATION = Some (case duration_query w of Some ns \<Rightarrow> VInt ns | None \<Rightarrow> VNone)"
    using scan_try_data by blast
  then have "accept sc d =
     (case min_duration_ms sc of
        None \<Rightarrow> Inr d
      | Some m \<Rightarrow>
          (case duration_query w of
             Some ns \<Rightarrow> if m \<le> ns div MSECOND then Inr d else Inl (rejecting_error m)
           | None \<Rightarrow> Inl (rejecting_error m)))"
    by (rule accept_duration)
  then show ?thesis
    using tr by (simp add: scan_unfold)
qed

theorem acceptance_check_witness:
  "scan \<lparr>timeout_ms = 1000, min_duration_ms = Some 100\<rparr>
     (example_engine [message_tick 0 MESSAGE_EOS Pipeline] (Some (50 * MSECOND)))
     ''http://example.com/a.ogg'' =
   Some (Inl (ScannerError ''Rejecting file with less than 100ms audio data.''),
         [SetState STATE_READY, SetUri ''http://example.com/a.ogg'', SetFlushing False,
          SetState STATE_PAUSED, HavePending, Pop, QueryDuration, SetFlushing True,
          SetState STATE_NULL]) \<and>
   scan \<lparr>timeout_ms = 1000, min_duration_ms = Some 100\<rparr>
     (example_engine [message_tick 0 MESSAGE_EOS Pipeline] (Some (150 * MSECOND)))
     ''http://example.com/a.ogg'' =
   Some (Inr [''uri'' \<mapsto> VStr ''http://example.com/a.ogg'', ''mtime'' \<mapsto> VNone,
              ''duration'' \<mapsto> VInt 150000000],
         [SetState STATE_READY, SetUri ''http://example.com/a.ogg'', SetFlushing False,
          SetState STATE_PAUSED, HavePending, Pop, QueryDuration, SetFlushing True,
          SetState STATE_NULL])"
proof -
  have short: "scan_try \<lparr>timeout_ms = 1000, min_duration_ms = Some 100\<rparr>
     (example_engine [message_tick 0 MESSAGE_EOS Pipeline] (Some (50 * MSECOND)))
     ''http://example.com/a.ogg'' =
   Some (Inr [''uri'' \<mapsto> VStr ''http://example.com/a.ogg'', ''mtime'' \<mapsto> VNone,
              ''duration'' \<mapsto> VInt 50000000],
         [SetState STATE_READY, SetUri ''http://example.com/a.ogg'', SetFlushing False,
          SetState STATE_PAUSED, HavePending, Pop, QueryDuration])"
    by (simp add: scan_eval)
  have long: "scan_try \<lparr>timeout_ms = 1000, min_duration_ms = Some 100\<rparr>
     (example_engine [message_tick 0 MESSAGE_EOS Pipeline] (Some (150 * MSECOND)))
     ''http://example.com/a.ogg'' =
   Some (Inr [''uri'' \<mapsto> VStr ''http://example.com/a.ogg'', ''mtime'' \<mapsto> VNone,
              ''duration'' \<mapsto> VInt 150000000],
         [SetState STATE_READY, SetUri ''http://example.com/a.ogg'', SetFlushing False,
          SetState STATE_PAUSED, HavePending, Pop, QueryDuration])"
    by (simp add: scan_eval)
  from acceptance_check [OF short] acceptance_check [OF long] show ?thesis
    by (simp add: example_engine_def MSECOND_def rejecting_error_def format_d_100)
qed

subsection \<open>C4: the reserved keys\<close>

text \<open>
  C4: in the dictionary of every successful scan, whatever the tag events carried, the
  key uri holds the locator itself, the key mtime holds the modification time of the
  local file for a locator that starts with file: and None for any other, and the
  duration key holds the answer of the duration query.
\<close>

theorem reserved_keys:
  "scan sc w uri = Some (Inr d, lg) \<Longrightarrow>
     d ''uri'' = Some (VStr uri) \<and>
     d ''mtime'' =
       Some (if startswith uri ''file:'' then
               (case getmtime w uri of Some t \<Rightarrow> VFloat t | None \<Rightarrow> VNone)
             else VNone) \<and>
     (startswith uri ''file:'' \<longrightarrow> getmtime w uri \<noteq> None) \<and>
     d TAG_DURATION = Some (case duration_query w of Some ns \<Rightarrow> VInt ns | None \<Rightarrow> VNone)"
proof -
  assume "scan sc w uri = Some (Inr d, lg)"
  then obtain lg' where "scan_try sc w uri = Some (Inr d, lg')"
    using scan_returns by blast
  from scan_try_data [OF this] show ?thesis
    by (auto simp: Scanner_query_mtime_def split: if_splits option.splits)
qed

theorem reserved_keys_witness:
  "scan example_scanner
     (example_engine
        [message_tick 0
           (MESSAGE_TAG [(''uri'', VStr ''tag''), (''mtime'', VInt 7), (''duration'', VInt 9),
                         (''title'', VStr ''X'')]) Uridecodebin,
         message_tick 0 MESSAGE_EOS Pipeline] (Some 150000000))
     ''file:///music/a.ogg'' =
   Some (Inr [''uri'' \<mapsto> VStr ''file:///music/a.ogg'', ''mtime'' \<mapsto> VFloat 1400000000,
              ''duration'' \<mapsto> VInt 150000000, ''title'' \<mapsto> VStr ''X''],
         [SetState STATE_READY, SetUri ''file:///music/a.ogg'', SetFlushing False,
          SetState STATE_PAUSED, HavePending, Pop, HavePending, Pop, QueryDuration,
          SetFlushing True, SetState STATE_NULL]) \<and>
   [''uri'' \<mapsto> VStr ''file:///music/a.ogg'', ''mtime'' \<mapsto> VFloat 1400000000,
    ''duration'' \<mapsto> VInt 150000000, ''title'' \<mapsto> VStr ''X''] ''uri'' =
     Some (VStr ''file:///music/a.ogg'') \<and>
   [''uri'' \<mapsto> VStr ''file:///music/a.ogg'', ''mtime'' \<mapsto> VFloat 1400000000,
    ''duration'' \<mapsto> VInt 150000000, ''title'' \<mapsto> VStr ''X''] ''mtime'' =
     Some (VFloat 1400000000) \<and>
   [''uri'' \<mapsto> VStr ''file:///music/a.ogg'', ''mtime'' \<mapsto> VFloat 1400000000,
    ''duration'' \<mapsto> VInt 150000000, ''title'' \<mapsto> VStr ''X''] TAG_DURATION =
     Some (VInt 150000000)"
proof -
  have run: "scan example_scanner
     (example_engine
        [message_tick 0
           (MESSAGE_TAG [(''uri'', VStr ''tag''), (''mtime'', VInt 7), (''duration'', VInt 9),
                         (''title'', VStr ''X'')]) Uridecodebin,
         message_tick 0 MESSAGE_EOS Pipeline] (Some 150000000))
     ''file:///music/a.ogg'' =
   Some (Inr [''uri'' \<mapsto> VStr ''file:///music/a.ogg'', ''mtime'' \<mapsto> VFloat 1400000000,
              ''duration'' \<mapsto> VInt 150000000, ''title'' \<mapsto> VStr ''X''],
         [SetState STATE_READY, SetUri ''file:///music/a.ogg'', SetFlushing False,
          SetState STATE_PAUSED, HavePending, Pop, HavePending, Pop, QueryDuration,
          SetFlushing True, SetState STATE_NULL])"
    by (auto simp: scan_eval merge_tags_map_add map_add_def fun_upd_def)
  from reserved_keys [OF run] show ?thesis
    using run by (simp add: example_engine_def startswith_def)
qed






subsection \<open>C5: the timeout\<close>




subsection \<open>C6: settle events\<close>

text \<open>
  C6: while the timeout has not elapsed, an async-done message whose source is not the
  pipeline leaves the loop running, with the tags collected so far unchanged; one whose
  source is the pipeline makes the loop return the tags collected so far. So after any
  run of turns without a terminal event, settle events of children among them, the
  settle event of the pipeline ends the collection with the tags of that run.
\<close>

theorem settle_events:
  "(in_time sc start t \<and> tick_pending t = Some m \<and> msg_type m = MESSAGE_ASYNC_DONE \<longrightarrow>
      collect_loop sc start (t # ts) d lg =
        (if msg_src m = Pipeline then Some (Inr d, lg @ [HavePending, Pop])
         else collect_loop sc start ts d (lg @ [HavePending, Pop]))) \<and>
   (list_all (in_time sc (clock_start w)) pre \<and> list_all quiet pre \<and>
    ticks w = pre @ t # ts \<and> in_time sc (clock_start w) t \<and>
    tick_pending t = Some m \<and> msg_type m = MESSAGE_ASYNC_DONE \<and> msg_src m = Pipeline \<longrightarrow>
      Scanner_collect sc w lg =
        Some (Inr (tags_of pre Map.empty), lg @ polls_of pre @ [HavePending, Pop]))"
proof (intro conjI impI)
  assume "in_time sc start t \<and> tick_pending t = Some m \<and> msg_type m = MESSAGE_ASYNC_DONE"
  then show "collect_loop sc start (t # ts) d lg =
        (if msg_src m = Pipeline then Some (Inr d, lg @ [HavePending, Pop])
         else collect_loop sc start ts d (lg @ [HavePending, Pop]))"
    by (simp add: in_time_def)
next
  assume h: "list_all (in_time sc (clock_start w)) pre \<and> list_all quiet pre \<and>
    ticks w = pre @ t # ts \<and> in_time sc (clock_start w) t \<and>
    tick_pending t = Some m \<and> msg_type m = MESSAGE_ASYNC_DONE \<and> msg_src m = Pipeline"
  then have "Scanner_collect sc w lg =
      collect_loop sc (clock_start w) (t # ts) (tags_of pre Map.empty) (lg @ polls_of pre)"
    by (simp add: Scanner_collect_def collect_loop_quiet_prefix del: collect_loop.simps)
  also from h have "\<dots> = Some (Inr (tags_of pre Map.empty), (lg @ polls_of pre) @ [HavePending, Pop])"
    by (simp add: in_time_def)
  finally show "Scanner_collect sc w lg =
        Some (Inr (tags_of pre Map.empty), lg @ polls_of pre @ [HavePending, Pop])"
    by simp
qed

theorem settle_events_witness:
  "Scanner_collect example_scanner
     (example_engine
        [message_tick (1 / 10) (MESSAGE_TAG [(''title'', VStr ''X'')]) Uridecodebin,
         message_tick (2 / 10) MESSAGE_ASYNC_DONE Uridecodebin,
         message_tick (3 / 10) MESSAGE_ASYNC_DONE Pipeline] None) [] =
   Some (Inr [''title'' \<mapsto> VStr ''X''], [HavePending, Pop, HavePending, Pop, HavePending, Pop]) \<and>
   collect_loop example_scanner 0
     [message_tick (2 / 10) MESSAGE_ASYNC_DONE Uridecodebin,
      message_tick (3 / 10) MESSAGE_ASYNC_DONE Pipeline] [''title'' \<mapsto> VStr ''X''] [] =
   collect_loop example_scanner 0
     [message_tick (3 / 10) MESSAGE_ASYNC_DONE Pipeline] [''title'' \<mapsto> VStr ''X'']
     [HavePending, Pop]"
proof -
  have whole: "Scanner_collect example_scanner
     (example_engine
        [message_tick (1 / 10) (MESSAGE_TAG [(''title'', VStr ''X'')]) Uridecodebin,
         message_tick (2 / 10) MESSAGE_ASYNC_DONE Uridecodebin,
         message_tick (3 / 10) MESSAGE_ASYNC_DONE Pipeline] None) [] =
   Some (Inr [''title'' \<mapsto> VStr ''X''], [HavePending, Pop, HavePending, Pop, HavePending, Pop])"
    using settle_events
      [where sc = example_scanner
         and w = "example_engine
           [message_tick (1 / 10) (MESSAGE_TAG [(''title'', VStr ''X'')]) Uridecodebin,
            message_tick (2 / 10) MESSAGE_ASYNC_DONE Uridecodebin,
            message_tick (3 / 10) MESSAGE_ASYNC_DONE Pipeline] None"
         and pre = "[message_tick (1 / 10) (MESSAGE_TAG [(''title'', VStr ''X'')]) Uridecodebin,
            message_tick (2 / 10) MESSAGE_ASYNC_DONE Uridecodebin]"
         and t = "message_tick (3 / 10) MESSAGE_ASYNC_DONE Pipeline" and ts = "[]"
         and m = "\<lparr>msg_type = MESSAGE_ASYNC_DONE, msg_src = Pipeline\<rparr>" and lg = "[]",
       THEN conjunct2]
    by (simp add: in_time_def quiet_def terminal_def timeout_s_def example_engine_def
        example_scanner_def message_tick_def)
  have step: "collect_loop example_scanner 0
     [message_tick (2 / 10) MESSAGE_ASYNC_DONE Uridecodebin,
      message_tick (3 / 10) MESSAGE_ASYNC_DONE Pipeline] [''title'' \<mapsto> VStr ''X''] [] =
   collect_loop example_scanner 0
     [message_tick (3 / 10) MESSAGE_ASYNC_DONE Pipeline] [''title'' \<mapsto> VStr ''X'']
     [HavePending, Pop]"
    using settle_events
      [where sc = example_scanner and start = 0
         and t = "message_tick (2 / 10) MESSAGE_ASYNC_DONE Uridecodebin"
         and m = "\<lparr>msg_type = MESSAGE_ASYNC_DONE, msg_src = Uridecodebin\<rparr>"
         and ts = "[message_tick (3 / 10) MESSAGE_ASYNC_DONE Pipeline]"
         and d = "[''title'' \<mapsto> VStr ''X'']" and lg = "[]",
       THEN conjunct1]
    by (simp add: in_time_def timeout_s_def example_scanner_def message_tick_def
        del: collect_loop.simps)
  from whole step show ?thesis by simp
qed

subsection \<open>C10: the later tag event wins\<close>

text \<open>
  C10: a tag event lays each of its keys over the tag map collected so far: the map
  holds the event's value under every key of the event and keeps its earlier value
  under the others. So when two tag events of one collection carry a value for the same
  key, the map holds the value of the later one afterwards.
\<close>

theorem later_tag_wins:
  "merge_tags tg d k = (case map_of tg k of Some v \<Rightarrow> Some v | None \<Rightarrow> d k) \<and>
   (in_time sc start t1 \<and> tick_pending t1 = Some m1 \<and> msg_type m1 = MESSAGE_TAG tg1 \<and>
    in_time sc start t2 \<and> tick_pending t2 = Some m2 \<and> msg_type m2 = MESSAGE_TAG tg2 \<and>
    map_of tg1 k = Some v1 \<and> map_of tg2 k = Some v2 \<longrightarrow>
      collect_loop sc start (t1 # t2 # ts) d lg =
        collect_loop sc start ts (merge_tags tg2 (merge_tags tg1 d))
          (lg @ [HavePending, Pop, HavePending, Pop]) \<and>
      merge_tags tg1 d k = Some v1 \<and>
      merge_tags tg2 (merge_tags tg1 d) k = Some v2)"
  by (simp add: in_time_def merge_tags_map_add map_add_def split: option.splits)

theorem later_tag_wins_witness:
  "collect_loop example_scanner 0
     [message_tick (1 / 10) (MESSAGE_TAG [(''title'', VStr ''A'')]) Uridecodebin,
      message_tick (2 / 10) (MESSAGE_TAG [(''title'', VStr ''B'')]) Uridecodebin,
      message_tick (3 / 10) MESSAGE_EOS Pipeline] Map.empty [] =
   Some (Inr [''title'' \<mapsto> VStr ''B''], [HavePending, Pop, HavePending, Pop, HavePending, Pop])"
proof -
  have merged:
    "merge_tags [(''title'', VStr ''B'')] (merge_tags [(''title'', VStr ''A'')] Map.empty) =
     [''title'' \<mapsto> VStr ''B'']"
    by (simp add: merge_tags_map_add)
  have "collect_loop example_scanner 0
     [message_tick (1 / 10) (MESSAGE_TAG [(''title'', VStr ''A'')]) Uridecodebin,
      message_tick (2 / 10) (MESSAGE_TAG [(''title'', VStr ''B'')]) Uridecodebin,
      message_tick (3 / 10) MESSAGE_EOS Pipeline] Map.empty [] =
   collect_loop example_scanner 0 [message_tick (3 / 10) MESSAGE_EOS Pipeline]
     (merge_tags [(''title'', VStr ''B'')] (merge_tags [(''title'', VStr ''A'')] Map.empty))
     ([] @ [HavePending, Pop, HavePending, Pop])"
    using later_tag_wins
      [where sc = example_scanner and start = 0
         and ?t1.0 = "message_tick (1 / 10) (MESSAGE_TAG [(''title'', VStr ''A'')]) Uridecodebin"
         and ?t2.0 = "message_tick (2 / 10) (MESSAGE_TAG [(''title'', VStr ''B'')]) Uridecodebin"
         and ?m1.0 = "\<lparr>msg_type = MESSAGE_TAG [(''title'', VStr ''A'')], msg_src = Uridecodebin\<rparr>"
         and ?m2.0 = "\<lparr>msg_type = MESSAGE_TAG [(''title'', VStr ''B'')], msg_src = Uridecodebin\<rparr>"
         and ?tg1.0 = "[(''title'', VStr ''A'')]" and ?tg2.0 = "[(''title'', VStr ''B'')]"
         and k = "''title''" and ?v1.0 = "VStr ''A''" and ?v2.0 = "VStr ''B''"
         and ts = "[message_tick (3 / 10) MESSAGE_EOS Pipeline]" and d = Map.empty and lg = "[]",
       THEN conjunct2]
    by (simp add: in_time_def timeout_s_def example_scanner_def message_tick_def
        del: collect_loop.simps)
  also have "\<dots> = Some (Inr [''title'' \<mapsto> VStr ''B''],
      [HavePending, Pop, HavePending, Pop, HavePending, Pop])"
    unfolding merged
    by (simp add: timeout_s_def example_scanner_def message_tick_def)
  finally show ?thesis .
qed

section \<open>Properties of \<^verbatim>\<open>audio_data_to_track\<close>\<close>

lemmas track_eval =
  audio_data_to_track_def retrieve_tags_def retrieve_def setdefault_def tag_defs
  TAG_DURATION_def date_step_def mtime_step_def duration_step_def artists_block_def
  Track_def Album_def Artist_def MSECOND_def example_data_def example_track_def Let_def
  map_add_def

lemma map_of_setdefault:
  "map_of (setdefault k v kw) k' =
     (if k' = k \<and> map_of kw k = None then Some v else map_of kw k')"
  by (auto simp: setdefault_def map_add_def split: option.splits)

lemma map_of_retrieve:
  "map_of (retrieve d sk tk kw) k' =
     (case d sk of
        Some v \<Rightarrow> if k' = tk \<and> map_of kw tk = None then Some (Val v) else map_of kw k'
      | None \<Rightarrow> map_of kw k')"
  by (simp add: retrieve_def map_of_setdefault split: option.splits)

lemma retrieve_empty:
  "retrieve d sk tk [] = (case d sk of Some v \<Rightarrow> [(tk, Val v)] | None \<Rightarrow> [])"
  by (simp add: retrieve_def setdefault_def split: option.splits)

lemma retrieve_tags_eq:
  "retrieve_tags d =
    (retrieve d ''musicbrainz-albumartistid'' ''musicbrainz_id''
       (retrieve d TAG_ALBUM_ARTIST ''name'' []),
     retrieve d ''musicbrainz-albumid'' ''musicbrainz_id''
       (retrieve d TAG_ALBUM_VOLUME_COUNT ''num_discs''
          (retrieve d TAG_TRACK_COUNT ''num_tracks'' (retrieve d TAG_ALBUM ''name'' []))),
     retrieve d ''musicbrainz-artistid'' ''musicbrainz_id'' (retrieve d TAG_ARTIST ''name'' []),
     retrieve d TAG_COMPOSER ''name'' [],
     retrieve d TAG_PERFORMER ''name'' [],
     retrieve d TAG_COPYRIGHT ''comment''
       (retrieve d TAG_LOCATION ''comment''
          (retrieve d TAG_ORGANIZATION ''name''
             (retrieve d ''musicbrainz-trackid'' ''musicbrainz_id''
                (retrieve d ''comment'' ''comment''
                   (retrieve d TAG_BITRATE ''bitrate''
                      (retrieve d TAG_GENRE ''genre''
                         (retrieve d TAG_ALBUM_VOLUME_NUMBER ''disc_no''
                            (retrieve d TAG_TRACK_NUMBER ''track_no''
                               (retrieve d TAG_TITLE ''name'' []))))))))))"
  by (simp add: retrieve_tags_def Let_def)

lemma date_step_keeps:
  "date_step d kw = Inr kw' \<Longrightarrow> k \<noteq> ''date'' \<Longrightarrow> map_of kw' k = map_of kw k"
  by (auto simp: date_step_def update_conv' split: option.splits if_splits pyval.splits sum.splits)

lemma mtime_step_keeps:
  "mtime_step p d kw = Inr kw' \<Longrightarrow> k \<noteq> ''last_modified'' \<Longrightarrow> map_of kw' k = map_of kw k"
  by (auto simp: mtime_step_def update_conv' split: option.splits if_splits sum.splits)

lemma duration_step_keeps:
  "duration_step d kw = Inr kw' \<Longrightarrow> k \<noteq> ''length'' \<Longrightarrow> map_of kw' k = map_of kw k"
  by (auto simp: duration_step_def update_conv' split: option.splits if_splits sum.splits)

lemma audio_data_to_track_Inr:
  assumes "audio_data_to_track p d = Inr t"
  obtains aa al ar co pe tk0 tk1 tk2 tk3 u artists composers performers where
    "retrieve_tags d = (aa, al, ar, co, pe, tk0)"
    "date_step d tk0 = Inr tk1" "mtime_step p d tk1 = Inr tk2" "duration_step d tk2 = Inr tk3"
    "d ''uri'' = Some u"
    "artists_block ar (Artists [Artist ar]) = Inr artists"
    "artists_block co (if co \<noteq> [] then Artists [Artist co] else Val (VStr [])) = Inr composers"
    "artists_block pe (if pe \<noteq> [] then Artists [Artist pe] else Val (VStr [])) = Inr performers"
    "t = Track (AList.update ''performers'' performers
           (AList.update ''composers'' composers
              (AList.update ''artists'' artists
                 (AList.update ''album''
                    (AlbumVal (Album (if aa \<noteq> [] then AList.update ''artists'' (Artists [Artist aa]) al
                                      else al)))
                    (AList.update ''uri'' (Val u) tk3)))))"
  using assms
  by (auto simp: audio_data_to_track_def Let_def split: prod.splits sum.splits option.splits)

lemma date_step_total:
  "(case d TAG_DATE of None \<Rightarrow> True | Some (VDate y m dd) \<Rightarrow> True | other \<Rightarrow> False) \<Longrightarrow>
   \<exists>kw'. date_step d kw = Inr kw'"
  by (auto simp: date_step_def split: option.splits pyval.splits sum.splits)

lemma mtime_step_total:
  "(case d ''mtime'' of Some VNone \<Rightarrow> True | Some (VFloat r) \<Rightarrow> True | other \<Rightarrow> False) \<Longrightarrow>
   \<exists>kw'. mtime_step p d kw = Inr kw'"
  by (auto simp: mtime_step_def split: option.splits pyval.splits sum.splits)

lemma duration_step_total:
  "(case d TAG_DURATION of Some VNone \<Rightarrow> True | Some (VInt n) \<Rightarrow> True | other \<Rightarrow> False) \<Longrightarrow>
   \<exists>kw'. duration_step d kw = Inr kw'"
  by (auto simp: duration_step_def split: option.splits pyval.splits sum.splits)

lemma artists_block_total:
  "name_value (d key) \<Longrightarrow> map_of kw ''name'' = map_option Val (d key) \<Longrightarrow>
   \<exists>r. artists_block kw otherwise = Inr r"
  by (cases "(d key)" rule: name_value.cases) (auto simp: artists_block_def)

lemma audio_data_to_track_total:
  assumes "raw_metadata d"
  shows "\<exists>t. audio_data_to_track p d = Inr t"
proof -
  obtain aa al ar co pe tk0 where rt: "retrieve_tags d = (aa, al, ar, co, pe, tk0)"
    by (metis prod_cases3)
  from rt have ar: "map_of ar ''name'' = map_option Val (d TAG_ARTIST)"
    and co: "map_of co ''name'' = map_option Val (d TAG_COMPOSER)"
    and pe: "map_of pe ''name'' = map_option Val (d TAG_PERFORMER)"
    by (auto simp: retrieve_tags_eq map_of_retrieve split: option.splits)
  from assms obtain tk1 where s1: "date_step d tk0 = Inr tk1"
    using date_step_total [of d tk0] by (auto simp: raw_metadata_def)
  from assms obtain tk2 where s2: "mtime_step p d tk1 = Inr tk2"
    using mtime_step_total [of d p tk1] by (auto simp: raw_metadata_def)
  from assms obtain tk3 where s3: "duration_step d tk2 = Inr tk3"
    using duration_step_total [of d tk2] by (auto simp: raw_metadata_def)
  from assms obtain u where u: "d ''uri'' = Some u"
    by (auto simp: raw_metadata_def split: option.splits)
  from assms ar obtain a1 where a1: "artists_block ar (Artists [Artist ar]) = Inr a1"
    using artists_block_total [of d TAG_ARTIST ar] by (auto simp: raw_metadata_def)
  from assms co obtain a2 where
    a2: "artists_block co (if co \<noteq> [] then Artists [Artist co] else Val (VStr [])) = Inr a2"
    using artists_block_total [of d TAG_COMPOSER co] by (auto simp: raw_metadata_def)
  from assms pe obtain a3 where
    a3: "artists_block pe (if pe \<noteq> [] then Artists [Artist pe] else Val (VStr [])) = Inr a3"
    using artists_block_total [of d TAG_PERFORMER pe] by (auto simp: raw_metadata_def)
  show ?thesis
    by (simp add: audio_data_to_track_def rt s1 s2 s3 u a1 a2 a3 Let_def)
qed

lemma track_fields:
  assumes "audio_data_to_track p d = Inr t"
  shows "track_name t =
          val_of (map_of (retrieve d TAG_ORGANIZATION ''name'' (retrieve d TAG_TITLE ''name'' []))
                    ''name'')"
    and "\<exists>r. artists_block (retrieve d ''musicbrainz-artistid'' ''musicbrainz_id''
                               (retrieve d TAG_ARTIST ''name'' []))
               (Artists [Artist (retrieve d ''musicbrainz-artistid'' ''musicbrainz_id''
                                   (retrieve d TAG_ARTIST ''name'' []))]) = Inr r \<and>
             track_artists t = artists_of (Some r)"
    and "\<exists>r. artists_block (retrieve d TAG_COMPOSER ''name'' [])
               (if retrieve d TAG_COMPOSER ''name'' [] \<noteq> []
                then Artists [Artist (retrieve d TAG_COMPOSER ''name'' [])] else Val (VStr [])) = Inr r \<and>
             track_composers t = artists_of (Some r)"
    and "\<exists>r. artists_block (retrieve d TAG_PERFORMER ''name'' [])
               (if retrieve d TAG_PERFORMER ''name'' [] \<noteq> []
                then Artists [Artist (retrieve d TAG_PERFORMER ''name'' [])] else Val (VStr [])) = Inr r \<and>
             track_performers t = artists_of (Some r)"
proof -
  from assms obtain aa al ar co pe tk0 tk1 tk2 tk3 u artists composers performers where
    rt: "retrieve_tags d = (aa, al, ar, co, pe, tk0)" and
    s: "date_step d tk0 = Inr tk1" "mtime_step p d tk1 = Inr tk2" "duration_step d tk2 = Inr tk3" and
    b: "artists_block ar (Artists [Artist ar]) = Inr artists"
    "artists_block co (if co \<noteq> [] then Artists [Artist co] else Val (VStr [])) = Inr composers"
    "artists_block pe (if pe \<noteq> [] then Artists [Artist pe] else Val (VStr [])) = Inr performers" and
    t: "t = Track (AList.update ''performers'' performers
           (AList.update ''composers'' composers
              (AList.update ''artists'' artists
                 (AList.update ''album''
                    (AlbumVal (Album (if aa \<noteq> [] then AList.update ''artists'' (Artists [Artist aa]) al
                                      else al)))
                    (AList.update ''uri'' (Val u) tk3)))))"
    by (rule audio_data_to_track_Inr)
  from rt have eqs:
    "ar = retrieve d ''musicbrainz-artistid'' ''musicbrainz_id'' (retrieve d TAG_ARTIST ''name'' [])"
    "co = retrieve d TAG_COMPOSER ''name'' []"
    "pe = retrieve d TAG_PERFORMER ''name'' []"
    by (simp_all add: retrieve_tags_eq)
  have "map_of tk3 ''name'' = map_of tk0 ''name''"
    using s by (simp add: date_step_keeps mtime_step_keeps duration_step_keeps)
  moreover have "map_of tk0 ''name'' =
      map_of (retrieve d TAG_ORGANIZATION ''name'' (retrieve d TAG_TITLE ''name'' [])) ''name''"
    using rt by (auto simp: retrieve_tags_eq map_of_retrieve split: option.splits)
  ultimately show "track_name t =
          val_of (map_of (retrieve d TAG_ORGANIZATION ''name'' (retrieve d TAG_TITLE ''name'' []))
                    ''name'')"
    by (simp add: t Track_def update_conv')
  from b show "\<exists>r. artists_block (retrieve d ''musicbrainz-artistid'' ''musicbrainz_id''
                               (retrieve d TAG_ARTIST ''name'' []))
               (Artists [Artist (retrieve d ''musicbrainz-artistid'' ''musicbrainz_id''
                                   (retrieve d TAG_ARTIST ''name'' []))]) = Inr r \<and>
             track_artists t = artists_of (Some r)"
    unfolding eqs by (simp add: t Track_def update_conv')
  from b show "\<exists>r. artists_block (retrieve d TAG_COMPOSER ''name'' [])
               (if retrieve d TAG_COMPOSER ''name'' [] \<noteq> []
                then Artists [Artist (retrieve d TAG_COMPOSER ''name'' [])] else Val (VStr [])) = Inr r \<and>
             track_composers t = artists_of (Some r)"
    unfolding eqs by (simp add: t Track_def update_conv')
  from b show "\<exists>r. artists_block (retrieve d TAG_PERFORMER ''name'' [])
               (if retrieve d TAG_PERFORMER ''name'' [] \<noteq> []
                then Artists [Artist (retrieve d TAG_PERFORMER ''name'' [])] else Val (VStr [])) = Inr r \<and>
             track_performers t = artists_of (Some r)"
    unfolding eqs by (simp add: t Track_def update_conv')
qed

subsection \<open>C7: no composer, no performer\<close>

text \<open>
  C7: when the dictionary has no composer tag, the composers of the resulting track are
  the empty sequence, and likewise the performers when it has no performer tag; and
  every dictionary of the scanner's types is mapped to a track.
\<close>

theorem empty_composers_performers:
  "(audio_data_to_track p d = Inr t \<and> d TAG_COMPOSER = None \<longrightarrow> track_composers t = []) \<and>
   (audio_data_to_track p d = Inr t \<and> d TAG_PERFORMER = None \<longrightarrow> track_performers t = []) \<and>
   (raw_metadata d \<longrightarrow> (\<exists>t'. audio_data_to_track p d = Inr t'))"
proof (intro conjI impI)
  assume "audio_data_to_track p d = Inr t \<and> d TAG_COMPOSER = None"
  then show "track_composers t = []"
    using track_fields(3) [of p d t] by (auto simp: retrieve_empty artists_block_def)
next
  assume "audio_data_to_track p d = Inr t \<and> d TAG_PERFORMER = None"
  then show "track_performers t = []"
    using track_fields(4) [of p d t] by (auto simp: retrieve_empty artists_block_def)
next
  assume "raw_metadata d"
  then show "\<exists>t'. audio_data_to_track p d = Inr t'"
    by (rule audio_data_to_track_total)
qed

theorem empty_composers_performers_witness:
  "raw_metadata (example_data [(''title'', VStr ''X''), (''artist'', VStr ''A'')]) \<and>
   audio_data_to_track (\<lambda>s. None)
     (example_data [(''title'', VStr ''X''), (''artist'', VStr ''A'')]) =
   Inr (example_track (Some (VStr ''X''))
          [\<lparr>artist_name = Some (VStr ''A''), artist_musicbrainz_id = None\<rparr>]) \<and>
   track_composers
     (example_track (Some (VStr ''X''))
        [\<lparr>artist_name = Some (VStr ''A''), artist_musicbrainz_id = None\<rparr>]) = [] \<and>
   track_performers
     (example_track (Some (VStr ''X''))
        [\<lparr>artist_name = Some (VStr ''A''), artist_musicbrainz_id = None\<rparr>]) = []"
proof -
  have raw: "raw_metadata (example_data [(''title'', VStr ''X''), (''artist'', VStr ''A'')])"
    by (simp add: raw_metadata_def example_data_def tag_defs TAG_DURATION_def)
  have run: "audio_data_to_track (\<lambda>s. None)
     (example_data [(''title'', VStr ''X''), (''artist'', VStr ''A'')]) =
   Inr (example_track (Some (VStr ''X''))
          [\<lparr>artist_name = Some (VStr ''A''), artist_musicbrainz_id = None\<rparr>])"
    by (simp add: track_eval)
  have none: "example_data [(''title'', VStr ''X''), (''artist'', VStr ''A'')] TAG_COMPOSER = None"
    "example_data [(''title'', VStr ''X''), (''artist'', VStr ''A'')] TAG_PERFORMER = None"
    by (simp_all add: example_data_def tag_defs)
  from empty_composers_performers
    [of "\<lambda>s. None" "example_data [(''title'', VStr ''X''), (''artist'', VStr ''A'')]"
        "example_track (Some (VStr ''X''))
          [\<lparr>artist_name = Some (VStr ''A''), artist_musicbrainz_id = None\<rparr>]"]
  show ?thesis
    using raw run none by simp
qed

subsection \<open>C8: several artist names\<close>

text \<open>
  C8: when the artist tag is a list of strings, the artists of the resulting track are
  one record per element, in the order of the list, named after the element and without
  a musicbrainz id, whatever else the dictionary holds (a musicbrainz-artistid tag
  included).
\<close>

theorem multiple_artist_names:
  "(audio_data_to_track p d = Inr t \<and> d TAG_ARTIST = Some (VStrs names) \<longrightarrow>
      track_artists t =
        map (\<lambda>n. \<lparr>artist_name = Some (VStr n), artist_musicbrainz_id = None\<rparr>) names) \<and>
   (raw_metadata d \<longrightarrow> (\<exists>t'. audio_data_to_track p d = Inr t'))"
proof (intro conjI impI)
  assume "audio_data_to_track p d = Inr t \<and> d TAG_ARTIST = Some (VStrs names)"
  then show "track_artists t =
        map (\<lambda>n. \<lparr>artist_name = Some (VStr n), artist_musicbrainz_id = None\<rparr>) names"
    using track_fields(2) [of p d t]
    by (auto simp: retrieve_empty artists_block_def map_of_retrieve Artist_def
        split: option.splits)
next
  assume "raw_metadata d"
  then show "\<exists>t'. audio_data_to_track p d = Inr t'"
    by (rule audio_data_to_track_total)
qed

theorem multiple_artist_names_witness:
  "raw_metadata
     (example_data [(''artist'', VStrs [''A'', ''B'']), (''musicbrainz-artistid'', VStr ''id'')]) \<and>
   audio_data_to_track (\<lambda>s. None)
     (example_data [(''artist'', VStrs [''A'', ''B'']), (''musicbrainz-artistid'', VStr ''id'')]) =
   Inr (example_track None
          [\<lparr>artist_name = Some (VStr ''A''), artist_musicbrainz_id = None\<rparr>,
           \<lparr>artist_name = Some (VStr ''B''), artist_musicbrainz_id = None\<rparr>]) \<and>
   track_artists
     (example_track None
        [\<lparr>artist_name = Some (VStr ''A''), artist_musicbrainz_id = None\<rparr>,
         \<lparr>artist_name = Some (VStr ''B''), artist_musicbrainz_id = None\<rparr>]) =
   [\<lparr>artist_name = Some (VStr ''A''), artist_musicbrainz_id = None\<rparr>,
    \<lparr>artist_name = Some (VStr ''B''), artist_musicbrainz_id = None\<rparr>]"
proof -
  have raw: "raw_metadata
     (example_data [(''artist'', VStrs [''A'', ''B'']), (''musicbrainz-artistid'', VStr ''id'')])"
    by (simp add: raw_metadata_def example_data_def tag_defs TAG_DURATION_def)
  have run: "audio_data_to_track (\<lambda>s. None)
     (example_data [(''artist'', VStrs [''A'', ''B'']), (''musicbrainz-artistid'', VStr ''id'')]) =
   Inr (example_track None
          [\<lparr>artist_name = Some (VStr ''A''), artist_musicbrainz_id = None\<rparr>,
           \<lparr>artist_name = Some (VStr ''B''), artist_musicbrainz_id = None\<rparr>])"
    by (simp add: track_eval)
  have names: "example_data
      [(''artist'', VStrs [''A'', ''B'']), (''musicbrainz-artistid'', VStr ''id'')] TAG_ARTIST =
      Some (VStrs [''A'', ''B''])"
    by (simp add: example_data_def tag_defs)
  from multiple_artist_names
    [of "\<lambda>s. None"
        "example_data [(''artist'', VStrs [''A'', ''B'']), (''musicbrainz-artistid'', VStr ''id'')]"
        "example_track None
          [\<lparr>artist_name = Some (VStr ''A''), artist_musicbrainz_id = None\<rparr>,
           \<lparr>artist_name = Some (VStr ''B''), artist_musicbrainz_id = None\<rparr>]"
        "[''A'', ''B'']"]
  show ?thesis
    using raw run names by simp
qed

subsection \<open>C9: the first writer wins\<close>

text \<open>
  C9: a copy never changes a target field that is already set. So with a title tag the
  name of the track is the title, whatever the organization tag says, and with an
  organization tag and no title tag it is the organization.
\<close>

theorem first_writer_wins:
  "(audio_data_to_track p d = Inr t \<and> d TAG_TITLE = Some x \<longrightarrow> track_name t = Some x) \<and>
   (audio_data_to_track p d = Inr t \<and> d TAG_TITLE = None \<and> d TAG_ORGANIZATION = Some y \<longrightarrow>
      track_name t = Some y) \<and>
   (map_of target tk = Some w \<longrightarrow> map_of (retrieve d sk tk target) tk = Some w) \<and>
   (raw_metadata d \<longrightarrow> (\<exists>t'. audio_data_to_track p d = Inr t'))"
proof (intro conjI impI)
  assume "audio_data_to_track p d = Inr t \<and> d TAG_TITLE = Some x"
  then show "track_name t = Some x"
    using track_fields(1) [of p d t] by (simp add: map_of_retrieve split: option.splits)
next
  assume "audio_data_to_track p d = Inr t \<and> d TAG_TITLE = None \<and> d TAG_ORGANIZATION = Some y"
  then show "track_name t = Some y"
    using track_fields(1) [of p d t] by (simp add: map_of_retrieve split: option.splits)
next
  assume "map_of target tk = Some w"
  then show "map_of (retrieve d sk tk target) tk = Some w"
    by (simp add: map_of_retrieve split: option.splits)
next
  assume "raw_metadata d"
  then show "\<exists>t'. audio_data_to_track p d = Inr t'"
    by (rule audio_data_to_track_total)
qed

theorem first_writer_wins_witness:
  "audio_data_to_track (\<lambda>s. None)
     (example_data [(''title'', VStr ''X''), (''organization'', VStr ''Y'')]) =
   Inr (example_track (Some (VStr ''X''))
          [\<lparr>artist_name = None, artist_musicbrainz_id = None\<rparr>]) \<and>
   track_name
     (example_track (Some (VStr ''X'')) [\<lparr>artist_name = None, artist_musicbrainz_id = None\<rparr>]) =
   Some (VStr ''X'') \<and>
   audio_data_to_track (\<lambda>s. None) (example_data [(''organization'', VStr ''Y'')]) =
   Inr (example_track (Some (VStr ''Y''))
          [\<lparr>artist_name = None, artist_musicbrainz_id = None\<rparr>]) \<and>
   track_name
     (example_track (Some (VStr ''Y'')) [\<lparr>artist_name = None, artist_musicbrainz_id = None\<rparr>]) =
   Some (VStr ''Y'') \<and>
   raw_metadata (example_data [(''organization'', VStr ''Y'')])"
proof -
  have both: "audio_data_to_track (\<lambda>s. None)
     (example_data [(''title'', VStr ''X''), (''organization'', VStr ''Y'')]) =
   Inr (example_track (Some (VStr ''X''))
          [\<lparr>artist_name = None, artist_musicbrainz_id = None\<rparr>])"
    by (simp add: track_eval)
  have only: "audio_data_to_track (\<lambda>s. None) (example_data [(''organization'', VStr ''Y'')]) =
   Inr (example_track (Some (VStr ''Y''))
          [\<lparr>artist_name = None, artist_musicbrainz_id = None\<rparr>])"
    by (simp add: track_eval)
  have tags:
    "example_data [(''title'', VStr ''X''), (''organization'', VStr ''Y'')] TAG_TITLE =
       Some (VStr ''X'')"
    "example_data [(''organization'', VStr ''Y'')] TAG_TITLE = None"
    "example_data [(''organization'', VStr ''Y'')] TAG_ORGANIZATION = Some (VStr ''Y'')"
    by (simp_all add: example_data_def tag_defs)
  have raw: "raw_metadata (example_data [(''organization'', VStr ''Y'')])"
    by (simp add: raw_metadata_def example_data_def tag_defs TAG_DURATION_def)
  from first_writer_wins
    [where p = "\<lambda>s. None"
       and d = "example_data [(''title'', VStr ''X''), (''organization'', VStr ''Y'')]"
       and t = "example_track (Some (VStr ''X''))
          [\<lparr>artist_name = None, artist_musicbrainz_id = None\<rparr>]"
       and x = "VStr ''X''", THEN conjunct1]
    first_writer_wins
    [where p = "\<lambda>s. None" and d = "example_data [(''organization'', VStr ''Y'')]"
       and t = "example_track (Some (VStr ''Y''))
          [\<lparr>artist_name = None, artist_musicbrainz_id = None\<rparr>]"
       and y = "VStr ''Y''", THEN conjunct2, THEN conjunct1]
  show ?thesis
    using both only tags raw by simp
qed

end
